theory Spec2Isabelle
  imports Main "HOL-Library.AList"
begin

section \<open>Data model of the entity cache (a50\_entityManager.js)\<close>

text \<open>
  Objects of the program are referred to by identity: an entity by an \<open>eref\<close>, a manager
  by an \<open>mref\<close>, a metadata store by an \<open>sref\<close>. The heap maps entity references to the
  entity objects; the JavaScript comparisons \<^verbatim>\<open>===\<close> on objects are comparisons of
  references. Members whose JavaScript name starts with an underscore carry the prefix
  \<open>u_\<close> (\<^verbatim>\<open>_hasChanges\<close> is \<open>u_hasChanges\<close>).
\<close>

type_synonym eref = nat
type_synonym mref = nat
type_synonym sref = nat

datatype EntityState = Detached | Added | Unchanged | Modified | Deleted

datatype MergeStrategy = Disallowed | OverwriteChanges | PreserveChanges | SkipMerge

datatype EntityAction = Attach | Detach | EntityStateChange | Clear | MergeOnImport | AttachOnImport

text \<open>
  Property values. Numbers are the integers (the numeric data types of the concurrency
  and key columns); a date is its \<^verbatim>\<open>getTime()\<close> instant; Guid and Binary values are
  strings, as they are in the program.
\<close>

datatype jsval = JUndefined | JNull | JBool bool | JNum int | JNaN | JStr string | JDate int

fun truthy :: "jsval \<Rightarrow> bool" where
  "truthy JUndefined = False"
| "truthy JNull = False"
| "truthy (JBool b) = b"
| "truthy (JNum n) = (n \<noteq> 0)"
| "truthy JNaN = False"
| "truthy (JStr s) = (s \<noteq> [])"
| "truthy (JDate t) = True"

record ValidationError =
  ve_errorName :: string
  ve_errorMessage :: string
  ve_propertyName :: string
  isServerError :: bool

record EntityError =
  ee_entity :: "eref option"
  ee_error :: ValidationError

text \<open>
  A thrown value: an Error with its message, a TypeError of the runtime (a member read
  on undefined), or the client validation Error with its \<^verbatim>\<open>entityErrors\<close>.
\<close>

datatype error = Error string | TypeError string | ValidationFailed string "EntityError list"

record EntityAspect =
  entityState :: EntityState
  entityManager :: "mref option"
  u_inProcessEntity :: "eref option"
  isBeingSaved :: bool
  hasTempKey :: bool
  originalValues :: "(string \<times> jsval) list"
  u_validationErrors :: "(string \<times> ValidationError) list"

text \<open>
  The type system is an external collaborator of the manager. An entity carries what the
  manager reads of its \<^verbatim>\<open>entityType\<close>: the name, the owning metadata store, the base
  type, the key properties with their default values, whether keys are auto-generated,
  the concurrency properties with what the manager reads of their data type, the
  navigation and foreign key properties, the names of its base types (nearest first,
  the chain of \<^verbatim>\<open>baseEntityType\<close>) and the names of the type and its subtypes
  (\<^verbatim>\<open>getSelfAndSubtypes\<close>).
\<close>

record DataType =
  dt_name :: string
  isNumeric :: bool
  isDate :: bool
  dt_defaultValue :: jsval

record DataProperty =
  dp_name :: string
  dataType :: DataType
  dp_defaultValue :: jsval

text \<open>
  A navigation property is identified by the type that declares it and its name. The
  manager reads its cardinality, the type at its other end, the foreign key properties
  behind it (\<^verbatim>\<open>relatedDataProperties\<close>), and of its inverse the name and the
  cardinality. A foreign key property may name the navigation property of the parent
  type that it serves when the child type declares none
  (\<^verbatim>\<open>inverseNavigationProperty\<close>).
\<close>

record NavigationPropertyCore =
  np_name :: string
  np_parentType :: string
  np_entityType :: string
  np_isScalar :: bool

record NavigationProperty = NavigationPropertyCore +
  inverse :: "NavigationPropertyCore option"
  relatedDataProperties :: "string list option"

record ForeignKeyProperty =
  fk_name :: string
  inverseNavigationProperty :: "NavigationProperty option"

record EntityType =
  et_name :: string
  et_metadataStore :: sref
  baseEntityTypes :: "string list"
  keyProperties :: "DataProperty list"
  autoGeneratedKey :: bool
  concurrencyProperties :: "DataProperty list"
  navigationProperties :: "NavigationProperty list"
  foreignKeyProperties :: "ForeignKeyProperty list"
  selfAndSubtypes :: "string list"

record Entity =
  entityType :: EntityType
  props :: "(string \<times> jsval) list"
  entityAspect :: "EntityAspect option"

type_synonym heap = "eref \<Rightarrow> Entity option"

datatype publication =
    EntityChanged EntityAction "eref option"
  | HasChangesChanged bool
  | ValidationErrorsChanged eref

text \<open>
  An EntityGroup holds the entities of one type; a slot of \<^verbatim>\<open>_entities\<close> is null once
  its entity has left the group (the manager's readers skip null slots).
\<close>

record EntityGroup =
  g_entityType :: string
  u_entities :: "eref option list"

text \<open>
  Options objects. A QueryOptions property may be undefined on a query and is then
  resolved against the manager's options, which are completely populated.
\<close>

record SaveOptions =
  allowConcurrentSaves :: bool

record QueryOptions =
  mergeStrategy :: "MergeStrategy option"
  includeDeleted :: "bool option"

text \<open>
  An EntityKey: the type (its name, the names of its base types and of the type and its
  subtypes) and the key values. The string form of a key under a type name, which indexes
  the temp key map and the unattached children, is the pair of the name and the values.
\<close>

record EntityKey =
  ek_typeName :: string
  ek_baseTypes :: "string list"
  ek_subtypes :: "string list"
  ek_values :: "jsval list"

type_synonym keyString = "string \<times> jsval list"

text \<open>
  The UnattachedChildrenMap: under the string form of a parent key, the tuples
  \<^verbatim>\<open>{ navigationProperty, children }\<close>.
\<close>

record UnattachedTuple =
  ut_navigationProperty :: NavigationProperty
  ut_children :: "eref list"

type_synonym UnattachedChildrenMap = "(keyString \<times> UnattachedTuple list) list"

record EntityManager =
  this :: mref
  metadataStore :: sref
  u_entityGroupMap :: "(string \<times> EntityGroup) list"
  u_unattachedChildrenMap :: UnattachedChildrenMap
  u_hasChanges :: bool
  isLoading :: bool
  u_hasChangesAction :: "eref option"
  validateOnAttach :: bool
  validateOnSave :: bool
  saveOptions :: SaveOptions
  queryOptions :: QueryOptions
  published :: "publication list"

definition aspectOf :: "heap \<Rightarrow> eref \<Rightarrow> EntityAspect option" where
  "aspectOf h e = (case h e of None \<Rightarrow> None | Some ent \<Rightarrow> entityAspect ent)"

definition stateOf :: "heap \<Rightarrow> eref \<Rightarrow> EntityState option" where
  "stateOf h e = map_option entityState (aspectOf h e)"

definition updAspect :: "heap \<Rightarrow> eref \<Rightarrow> (EntityAspect \<Rightarrow> EntityAspect) \<Rightarrow> heap" where
  "updAspect h e f =
     (case h e of
        None \<Rightarrow> h
      | Some ent \<Rightarrow> h(e \<mapsto> ent\<lparr>entityAspect := map_option f (entityAspect ent)\<rparr>))"

definition publish :: "publication \<Rightarrow> EntityManager \<Rightarrow> EntityManager" where
  "publish p em = em\<lparr>published := published em @ [p]\<rparr>"

fun isChanged :: "EntityState \<Rightarrow> bool" where
  "isChanged Added = True"
| "isChanged Modified = True"
| "isChanged Deleted = True"
| "isChanged Unchanged = False"
| "isChanged Detached = False"

subsection \<open>EntityGroup and EntityAspect operations the manager calls\<close>

text \<open>
  Modelled from the spec: \<^verbatim>\<open>EntityGroup.getChanges\<close> is not in the manager's file;
  the spec's data model has a changed entity be one in Added, Modified or Deleted, and the
  group own the live list of its entities.
\<close>

definition group_getChanges :: "heap \<Rightarrow> EntityGroup \<Rightarrow> eref list" where
  "group_getChanges h g =
     filter (\<lambda>e. case stateOf h e of Some s \<Rightarrow> isChanged s | None \<Rightarrow> False)
       (List.map_filter id (u_entities g))"

text \<open>
  Modelled from the spec: \<^verbatim>\<open>EntityGroup.hasChanges\<close> is not in the manager's file;
  the group has changes iff it contains an entity in Added, Modified or Deleted.
\<close>

definition group_hasChanges :: "heap \<Rightarrow> EntityGroup \<Rightarrow> bool" where
  "group_hasChanges h g = (group_getChanges h g \<noteq> [])"

text \<open>
  Modelled from the spec: removing an entity from its EntityGroup (part of
  \<^verbatim>\<open>EntityAspect.setDetached\<close>, not in the manager's file) empties its slot.
\<close>

definition group_detachEntity :: "eref \<Rightarrow> EntityGroup \<Rightarrow> EntityGroup" where
  "group_detachEntity e g =
     g\<lparr>u_entities := map (\<lambda>s. if s = Some e then None else s) (u_entities g)\<rparr>"

definition detachFromGroups :: "eref \<Rightarrow> EntityManager \<Rightarrow> EntityManager" where
  "detachFromGroups e em =
     em\<lparr>u_entityGroupMap := map (\<lambda>(n, g). (n, group_detachEntity e g)) (u_entityGroupMap em)\<rparr>"

subsection \<open>hasChanges and its cache\<close>

text \<open>
  \<^verbatim>\<open>getEntityGroups(em, entityTypes)\<close>: the groups of the given types (a missing group
  is undefined, here None), or every group of the map when no types are given. The types
  are given by name; the resolution of names by the metadata store is outside the file.
\<close>

definition getEntityGroups :: "EntityManager \<Rightarrow> string list option \<Rightarrow> EntityGroup option list" where
  "getEntityGroups em entityTypes =
     (case entityTypes of
        Some ets \<Rightarrow> map (\<lambda>et. map_of (u_entityGroupMap em) et) ets
      | None \<Rightarrow> map (\<lambda>(n, g). Some g) (u_entityGroupMap em))"

definition u_hasChangesCore :: "EntityManager \<Rightarrow> heap \<Rightarrow> string list option \<Rightarrow> bool" where
  "u_hasChangesCore em h entityTypes =
     list_ex (\<lambda>eg. case eg of None \<Rightarrow> False | Some g \<Rightarrow> group_hasChanges h g)
       (getEntityGroups em entityTypes)"

definition hasChanges :: "EntityManager \<Rightarrow> heap \<Rightarrow> string list option \<Rightarrow> bool" where
  "hasChanges em h entityTypes =
     (if \<not> u_hasChanges em then False
      else if entityTypes = None then u_hasChanges em
      else u_hasChangesCore em h entityTypes)"

definition getChangesCore :: "EntityManager \<Rightarrow> heap \<Rightarrow> string list option \<Rightarrow> eref list" where
  "getChangesCore em h entityTypes =
     concat (map (\<lambda>eg. case eg of None \<Rightarrow> [] | Some g \<Rightarrow> group_getChanges h g)
       (getEntityGroups em entityTypes))"

definition getChanges :: "EntityManager \<Rightarrow> heap \<Rightarrow> string list option \<Rightarrow> eref list" where
  "getChanges em h entityTypes = getChangesCore em h entityTypes"

text \<open>
  \<^verbatim>\<open>_setHasChanges(hasChanges)\<close>: null recomputes; the event is published when the
  value changes; a pending deferred recomputation is dropped.
\<close>

definition u_setHasChanges :: "bool option \<Rightarrow> EntityManager \<Rightarrow> heap \<Rightarrow> EntityManager" where
  "u_setHasChanges hasChangesArg em h =
     (let hasCh = (case hasChangesArg of None \<Rightarrow> u_hasChangesCore em h None | Some b \<Rightarrow> b);
          hadChanges = u_hasChanges em;
          em1 = em\<lparr>u_hasChanges := hasCh\<rparr>;
          em2 = (if hasCh \<noteq> hadChanges then publish (HasChangesChanged hasCh) em1 else em1)
      in em2\<lparr>u_hasChangesAction := None\<rparr>)"

text \<open>
  \<^verbatim>\<open>_notifyStateChange(entity, needsSave)\<close>. While the manager is loading, the
  recomputation is deferred: \<^verbatim>\<open>_hasChangesAction\<close> keeps the first closure, recorded
  here by the entity of its event arguments.
\<close>

definition u_notifyStateChange :: "eref \<Rightarrow> bool \<Rightarrow> EntityManager \<Rightarrow> heap \<Rightarrow> EntityManager" where
  "u_notifyStateChange entity needsSave em h =
     (let ecArgs = EntityChanged EntityStateChange (Some entity) in
      if needsSave then
        publish ecArgs (if \<not> u_hasChanges em then u_setHasChanges (Some True) em h else em)
      else if u_hasChanges em then
        (if isLoading em then
           em\<lparr>u_hasChangesAction :=
                 (case u_hasChangesAction em of Some a \<Rightarrow> Some a | None \<Rightarrow> Some entity)\<rparr>
         else publish ecArgs (u_setHasChanges None em h))
      else publish ecArgs em)"


subsection \<open>Detach, reject and accept\<close>

text \<open>
  Modelled from the spec: \<^verbatim>\<open>EntityAspect.setDetached\<close> is not in the manager's file.
  Per the spec's attach/detach protocol it returns false for an entity that is already
  detached; otherwise it removes the entity from its EntityGroup, sets the state
  Detached, clears the aspect's manager reference, and publishes the Detach notification.
  The spec has \<^verbatim>\<open>hasChanges()\<close> agree with the states of the cache after a detach: the
  manager is told through \<^verbatim>\<open>_notifyStateChange(entity, false)\<close> that the entity no
  longer needs a save, which recomputes the flag.
\<close>

definition aspect_setDetached :: "eref \<Rightarrow> EntityManager \<Rightarrow> heap \<Rightarrow> bool \<times> EntityManager \<times> heap" where
  "aspect_setDetached e em h =
     (if stateOf h e = Some Detached then (False, em, h)
      else
        (let h1 = updAspect h e (\<lambda>a. a\<lparr>entityState := Detached, entityManager := None\<rparr>);
             em1 = u_notifyStateChange e False (detachFromGroups e em) h1
         in (True, publish (EntityChanged Detach (Some e)) em1, h1)))"

text \<open>
  \<^verbatim>\<open>detachEntity(entity)\<close>. The parameter assertion refuses what is not an entity (here
  a reference to no object).
\<close>

definition detachEntity :: "EntityManager \<Rightarrow> heap \<Rightarrow> eref \<Rightarrow> (error + bool) \<times> EntityManager \<times> heap" where
  "detachEntity em h entity =
     (case h entity of
        None \<Rightarrow> (Inl (Error ''entity is not an entity''), em, h)
      | Some ent \<Rightarrow>
          (case entityAspect ent of
             None \<Rightarrow> (Inr False, em, h)
           | Some aspect \<Rightarrow>
               if entityManager aspect \<noteq> Some (this em) then
                 (Inl (Error ''This entity does not belong to this EntityManager.''), em, h)
               else
                 (case aspect_setDetached entity em h of
                    (r, em', h') \<Rightarrow> (Inr r, em', h'))))"

text \<open>
  Modelled from the spec: the state setters of EntityAspect are not in the manager's
  file. A setter stores the new state (an entity that becomes Unchanged has no original
  values any more) and reports it to the owning manager through
  \<^verbatim>\<open>_notifyStateChange\<close>, with \<^verbatim>\<open>needsSave\<close> true for Added, Modified and Deleted.
\<close>

definition aspect_setEntityState ::
  "eref \<Rightarrow> EntityState \<Rightarrow> EntityManager \<Rightarrow> heap \<Rightarrow> EntityManager \<times> heap" where
  "aspect_setEntityState e s em h =
     (if s = Detached then
        (case aspect_setDetached e em h of (r, em', h') \<Rightarrow> (em', h'))
      else
        (let h1 = updAspect h e
               (\<lambda>a. a\<lparr>entityState := s,
                       originalValues := (if s = Unchanged then [] else originalValues a)\<rparr>)
         in (u_notifyStateChange e (isChanged s) em h1, h1)))"

definition revertValues :: "heap \<Rightarrow> eref \<Rightarrow> heap" where
  "revertValues h e =
     (case h e of
        None \<Rightarrow> h
      | Some ent \<Rightarrow>
          (case entityAspect ent of
             None \<Rightarrow> h
           | Some a \<Rightarrow>
               h(e \<mapsto> ent\<lparr>props := fold (\<lambda>(k, v) ps. AList.update k v ps) (originalValues a) (props ent)\<rparr>)))"

text \<open>
  Modelled from the spec: \<^verbatim>\<open>EntityAspect.rejectChanges\<close> is not in the manager's file.
  Per the spec's state machine an Added entity becomes Detached, a Modified one gets its
  values reverted, and the entity ends Unchanged; the manager is told that the entity no
  longer needs a save.
\<close>

definition aspect_rejectChanges :: "eref \<Rightarrow> EntityManager \<Rightarrow> heap \<Rightarrow> EntityManager \<times> heap" where
  "aspect_rejectChanges e em h =
     (if stateOf h e = Some Added then
        (case aspect_setDetached e em h of
           (r, em', h') \<Rightarrow> (u_notifyStateChange e False em' h', h'))
      else aspect_setEntityState e Unchanged em
             (if stateOf h e = Some Modified then revertValues h e else h))"

text \<open>
  Modelled from the spec: \<^verbatim>\<open>EntityAspect.acceptChanges\<close> is not in the manager's file.
  Per the spec's state machine a Deleted entity is removed from the cache and any other
  becomes Unchanged.
\<close>

definition aspect_acceptChanges :: "eref \<Rightarrow> EntityManager \<Rightarrow> heap \<Rightarrow> EntityManager \<times> heap" where
  "aspect_acceptChanges e em h =
     (if stateOf h e = Some Deleted then
        (case aspect_setDetached e em h of (r, em', h') \<Rightarrow> (em', h'))
      else aspect_setEntityState e Unchanged em h)"

text \<open>
  \<^verbatim>\<open>aspect._checkOperation(name)\<close> is not in the manager's file and the spec does not
  describe it: it is a parameter, returning the error it throws, if any.
\<close>

type_synonym checkOperation = "EntityAspect \<Rightarrow> string \<Rightarrow> error option"

fun checkAll :: "checkOperation \<Rightarrow> heap \<Rightarrow> string \<Rightarrow> eref list \<Rightarrow> error option" where
  "checkAll chk h opName [] = None"
| "checkAll chk h opName (e # es) =
     (case aspectOf h e of
        None \<Rightarrow> Some (TypeError ''entityAspect is undefined'')
      | Some a \<Rightarrow>
          (case chk a opName of
             Some err \<Rightarrow> Some err
           | None \<Rightarrow> checkAll chk h opName es))"

definition rejectChanges ::
  "checkOperation \<Rightarrow> EntityManager \<Rightarrow> heap \<Rightarrow> (error + eref list) \<times> EntityManager \<times> heap" where
  "rejectChanges chk em h =
     (if \<not> u_hasChanges em then (Inr [], em, h)
      else
        (let changes = getChangesCore em h None in
         case checkAll chk h ''rejectChanges'' changes of
           Some err \<Rightarrow> (Inl err, em, h)
         | None \<Rightarrow>
             (case fold (\<lambda>e (m, hp). aspect_rejectChanges e m hp) changes
                     (em\<lparr>u_hasChanges := False\<rparr>, h) of
                (em2, h2) \<Rightarrow>
                  (Inr changes, publish (HasChangesChanged False) em2, h2))))"

definition acceptChanges ::
  "checkOperation \<Rightarrow> EntityManager \<Rightarrow> heap \<Rightarrow> (error + unit) \<times> EntityManager \<times> heap" where
  "acceptChanges chk em h =
     (let changes = getChanges em h None in
      case checkAll chk h ''acceptChanges'' changes of
        Some err \<Rightarrow> (Inl err, em, h)
      | None \<Rightarrow>
          (case fold (\<lambda>e (m, hp). aspect_acceptChanges e m hp) changes (em, h) of
             (em2, h2) \<Rightarrow> (Inr (), em2, h2)))"

subsection \<open>Property access\<close>

definition getProperty :: "Entity \<Rightarrow> string \<Rightarrow> jsval" where
  "getProperty ent name = (case map_of (props ent) name of None \<Rightarrow> JUndefined | Some v \<Rightarrow> v)"

text \<open>
  Modelled from the spec: the property interceptor behind \<^verbatim>\<open>entity.setProperty\<close> is not
  in the manager's file. Per the spec a write to an entity that is attached, outside the
  loading scope, records the pre-change value in \<^verbatim>\<open>originalValues\<close> on the first
  mutation of the property and promotes an Unchanged entity to Modified; a write to a
  detached entity, or inside the loading scope, only stores the value.
\<close>

definition entity_setProperty ::
  "eref \<Rightarrow> string \<Rightarrow> jsval \<Rightarrow> EntityManager \<Rightarrow> heap \<Rightarrow> EntityManager \<times> heap" where
  "entity_setProperty e name v em h =
     (case h e of
        None \<Rightarrow> (em, h)
      | Some ent \<Rightarrow>
          (let written = ent\<lparr>props := AList.update name v (props ent)\<rparr> in
           case entityAspect ent of
             None \<Rightarrow> (em, h(e \<mapsto> written))
           | Some a \<Rightarrow>
               if entityManager a \<noteq> Some (this em) \<or> isLoading em \<or> entityState a = Detached then
                 (em, h(e \<mapsto> written))
               else
                 (let a1 = a\<lparr>originalValues :=
                              (if map_of (originalValues a) name = None
                               then originalValues a @ [(name, getProperty ent name)]
                               else originalValues a)\<rparr>;
                      h1 = h(e \<mapsto> written\<lparr>entityAspect := Some a1\<rparr>)
                  in if entityState a = Unchanged then aspect_setEntityState e Modified em h1
                     else (em, h1))))"

subsection \<open>The save pipeline up to the transport call\<close>

text \<open>
  What the pipeline reads of its environment: the successive readings of
  \<^verbatim>\<open>new Date().getTime()\<close>, the values \<^verbatim>\<open>__getUuid()\<close> returns, and the text of a
  date (used by \<^verbatim>\<open>+\<close> on a Date operand).
\<close>

record sysenv =
  clock :: "int list"
  uuidSource :: "nat \<Rightarrow> string"
  uuidCount :: nat
  dateText :: "int \<Rightarrow> string"

text \<open>
  A number of the language is a double; a JNum holds one that is an integer. The sum of
  two of them is the double nearest to the exact sum, the one with the even significand
  when two are equally near: up to \<open>2 ^ 53\<close> in magnitude every integer is a double, and
  beyond, only the multiples of the power of two that leaves 53 significant bits.
\<close>

function bitlen :: "int \<Rightarrow> nat" where
  "bitlen n = (if n \<le> 0 then 0 else Suc (bitlen (n div 2)))"
  by auto
termination by (relation "measure nat") auto

declare bitlen.simps [simp del]

definition roundToDouble :: "int \<Rightarrow> int" where
  "roundToDouble m =
     (let a = \<bar>m\<bar>; e = bitlen a - 53
      in if e = 0 then m
         else
           (let q = a div 2 ^ e; r = a mod 2 ^ e; half = 2 ^ (e - 1);
                q' = (if half < r \<or> (r = half \<and> odd q) then q + 1 else q)
            in sgn m * (q' * 2 ^ e)))"

text \<open>\<^verbatim>\<open>value + 1\<close>, with the coercions of the language.\<close>

fun jsAdd1 :: "(int \<Rightarrow> string) \<Rightarrow> jsval \<Rightarrow> jsval" where
  "jsAdd1 txt (JNum n) = JNum (if \<bar>n + 1\<bar> \<le> 2 ^ 53 then n + 1 else roundToDouble (n + 1))"
| "jsAdd1 txt JNull = JNum 1"
| "jsAdd1 txt JUndefined = JNaN"
| "jsAdd1 txt JNaN = JNaN"
| "jsAdd1 txt (JBool b) = JNum (if b then 2 else 1)"
| "jsAdd1 txt (JStr s) = JStr (s @ ''1'')"
| "jsAdd1 txt (JDate t) = JStr (txt t @ ''1'')"

text \<open>
  The loop \<^verbatim>\<open>while (dt.getTime() === dt2.getTime()) dt2 = new Date()\<close> over the clock's
  readings; it does not end (None) when no later reading differs from the first.
\<close>

fun resample :: "int \<Rightarrow> int list \<Rightarrow> (int \<times> int list) option" where
  "resample dt [] = None"
| "resample dt (t # ts) = (if t = dt then resample dt ts else Some (t, ts))"

type_synonym 'a effect = "((error + 'a) \<times> sysenv \<times> EntityManager \<times> heap) option"

definition updateConcurrencyProperty ::
  "sysenv \<Rightarrow> eref \<Rightarrow> DataProperty \<Rightarrow> EntityManager \<Rightarrow> heap \<Rightarrow> unit effect" where
  "updateConcurrencyProperty env entity property em h =
     (case h entity of
        None \<Rightarrow> Some (Inl (TypeError ''entity is undefined''), env, em, h)
      | Some ent \<Rightarrow>
          (case entityAspect ent of
             None \<Rightarrow> Some (Inl (TypeError ''entityAspect is undefined''), env, em, h)
           | Some a \<Rightarrow>
               if (case map_of (originalValues a) (dp_name property) of
                     None \<Rightarrow> False | Some ov \<Rightarrow> truthy ov)
               then Some (Inr (), env, em, h)
               else
                 (let value0 = getProperty ent (dp_name property);
                      value = (if \<not> truthy value0 then dt_defaultValue (dataType property) else value0)
                  in if isNumeric (dataType property) then
                       (case entity_setProperty entity (dp_name property)
                               (jsAdd1 (dateText env) value) em h of
                          (em', h') \<Rightarrow> Some (Inr (), env, em', h'))
                     else if isDate (dataType property) then
                       (case clock env of
                          [] \<Rightarrow> None
                        | dt # rest \<Rightarrow>
                            (case resample dt rest of
                               None \<Rightarrow> None
                             | Some (dt2, rest') \<Rightarrow>
                                 (case entity_setProperty entity (dp_name property) (JDate dt2) em h of
                                    (em', h') \<Rightarrow> Some (Inr (), env\<lparr>clock := rest'\<rparr>, em', h'))))
                     else if dt_name (dataType property) = ''Guid'' then
                       (case entity_setProperty entity (dp_name property)
                               (JStr (uuidSource env (uuidCount env))) em h of
                          (em', h') \<Rightarrow> Some (Inr (), env\<lparr>uuidCount := Suc (uuidCount env)\<rparr>, em', h'))
                     else if dt_name (dataType property) = ''Binary'' then
                       Some (Inr (), env, em, h)
                     else
                       Some (Inl (Error (''Unable to update the value of concurrency property before saving: ''
                                          @ dp_name property)), env, em, h))))"

fun forEachConcurrencyProperty ::
  "sysenv \<Rightarrow> eref \<Rightarrow> DataProperty list \<Rightarrow> EntityManager \<Rightarrow> heap \<Rightarrow> unit effect" where
  "forEachConcurrencyProperty env c [] em h = Some (Inr (), env, em, h)"
| "forEachConcurrencyProperty env c (cp # cps) em h =
     (case updateConcurrencyProperty env c cp em h of
        None \<Rightarrow> None
      | Some (Inl err, env', em', h') \<Rightarrow> Some (Inl err, env', em', h')
      | Some (Inr u, env', em', h') \<Rightarrow> forEachConcurrencyProperty env' c cps em' h')"

fun forEachCandidate :: "sysenv \<Rightarrow> eref list \<Rightarrow> EntityManager \<Rightarrow> heap \<Rightarrow> unit effect" where
  "forEachCandidate env [] em h = Some (Inr (), env, em, h)"
| "forEachCandidate env (c # cs) em h =
     (case forEachConcurrencyProperty env c
             (case h c of None \<Rightarrow> [] | Some ent \<Rightarrow> concurrencyProperties (entityType ent)) em h of
        None \<Rightarrow> None
      | Some (Inl err, env', em', h') \<Rightarrow> Some (Inl err, env', em', h')
      | Some (Inr u, env', em', h') \<Rightarrow> forEachCandidate env' cs em' h')"

definition markIsBeingSaved :: "eref list \<Rightarrow> bool \<Rightarrow> heap \<Rightarrow> heap" where
  "markIsBeingSaved entities flag h =
     fold (\<lambda>e hp. updAspect hp e (\<lambda>a. a\<lparr>isBeingSaved := flag\<rparr>)) entities h"

definition updateConcurrencyProperties ::
  "sysenv \<Rightarrow> eref list \<Rightarrow> EntityManager \<Rightarrow> heap \<Rightarrow> unit effect" where
  "updateConcurrencyProperties env entities em h =
     (let h1 = markIsBeingSaved entities True h;
          candidates = filter
            (\<lambda>e. case h1 e of
                    None \<Rightarrow> False
                  | Some ent \<Rightarrow>
                      map_option entityState (entityAspect ent) = Some Modified
                      \<and> concurrencyProperties (entityType ent) \<noteq> []) entities
      in if candidates = [] then Some (Inr (), env, em, h1)
         else forEachCandidate env candidates em h1)"

text \<open>
  \<^verbatim>\<open>getEntitiesToSave(em, entities)\<close>: the callback of the filter throws at the first
  entity whose aspect names another manager (or none).
\<close>

fun filterEntitiesToSave :: "EntityManager \<Rightarrow> heap \<Rightarrow> eref list \<Rightarrow> error + eref list" where
  "filterEntitiesToSave em h [] = Inr []"
| "filterEntitiesToSave em h (e # es) =
     (case aspectOf h e of
        None \<Rightarrow> Inl (TypeError ''entityAspect is undefined'')
      | Some a \<Rightarrow>
          if entityManager a \<noteq> Some (this em) then
            Inl (Error ''Only entities in this entityManager may be saved'')
          else
            (case filterEntitiesToSave em h es of
               Inl err \<Rightarrow> Inl err
             | Inr rest \<Rightarrow> Inr (if entityState a \<noteq> Detached then e # rest else rest)))"

definition getEntitiesToSave :: "EntityManager \<Rightarrow> heap \<Rightarrow> eref list option \<Rightarrow> error + eref list" where
  "getEntitiesToSave em h entities =
     (case entities of
        Some es \<Rightarrow> filterEntitiesToSave em h es
      | None \<Rightarrow> Inr (getChanges em h None))"

definition clearServerErrors :: "eref list \<Rightarrow> EntityManager \<Rightarrow> heap \<Rightarrow> EntityManager \<times> heap" where
  "clearServerErrors entities em h =
     fold (\<lambda>e (m, hp).
             case aspectOf hp e of
               None \<Rightarrow> (m, hp)
             | Some a \<Rightarrow>
                 if filter (\<lambda>(k, ve). isServerError ve) (u_validationErrors a) = [] then (m, hp)
                 else (publish (ValidationErrorsChanged e) m,
                       updAspect hp e (\<lambda>a. a\<lparr>u_validationErrors :=
                          filter (\<lambda>(k, ve). \<not> isServerError ve) (u_validationErrors a)\<rparr>)))
       entities (em, h)"

text \<open>
  Modelled from the spec: \<^verbatim>\<open>aspect.validateEntity()\<close> belongs to the validation engine,
  of which the manager uses the pass/fail answer and the error objects. The engine is a
  parameter that gives the errors of an entity; validating stores them on the aspect and
  passes when there are none.
\<close>

type_synonym validator = "Entity \<Rightarrow> (string \<times> ValidationError) list"

definition aspect_validateEntity :: "validator \<Rightarrow> eref \<Rightarrow> heap \<Rightarrow> bool \<times> heap" where
  "aspect_validateEntity val e h =
     (case h e of
        None \<Rightarrow> (True, h)
      | Some ent \<Rightarrow> (val ent = [], updAspect h e (\<lambda>a. a\<lparr>u_validationErrors := val ent\<rparr>)))"

fun failedEntities :: "validator \<Rightarrow> eref list \<Rightarrow> heap \<Rightarrow> eref list \<times> heap" where
  "failedEntities val [] h = ([], h)"
| "failedEntities val (e # es) h =
     (if stateOf h e = Some Deleted then failedEntities val es h
      else (case aspect_validateEntity val e h of
              (ok, h1) \<Rightarrow>
                (case failedEntities val es h1 of
                   (failed, h2) \<Rightarrow> (if ok then failed else e # failed, h2))))"

definition createEntityErrors :: "heap \<Rightarrow> eref list \<Rightarrow> EntityError list" where
  "createEntityErrors h entities =
     concat (map (\<lambda>e. case aspectOf h e of
                        None \<Rightarrow> []
                      | Some a \<Rightarrow> map (\<lambda>(k, ve). \<lparr>ee_entity = Some e, ee_error = ve\<rparr>)
                                     (u_validationErrors a)) entities)"

definition saveChangesValidateOnClient ::
  "validator \<Rightarrow> EntityManager \<Rightarrow> heap \<Rightarrow> eref list \<Rightarrow> error option \<times> heap" where
  "saveChangesValidateOnClient val em h entitiesToSave =
     (if validateOnSave em then
        (case failedEntities val entitiesToSave h of
           (failed, h1) \<Rightarrow>
             if failed \<noteq> [] then
               (Some (ValidationFailed
                  ''Client side validation errors encountered - see the entityErrors collection on this object for more detail''
                  (createEntityErrors h1 failed)), h1)
             else (None, h1))
      else (None, h))"

record KeyMapping =
  entityTypeName :: string
  tempValue :: jsval
  realValue :: jsval

record SaveResult =
  sr_entities :: "eref list"
  keyMappings :: "KeyMapping list"

datatype 'a promise = Resolved 'a | Rejected error | Pending

datatype callbackCall = Callback SaveResult | ErrorCallback error

text \<open>
  What a call of \<^verbatim>\<open>saveChanges\<close> does towards its caller and the transport: it throws
  (Inl) or returns a promise, it calls the callbacks it was given, and it hands bundles
  of entities to the data service adapter. A pending promise is settled by the adapter's
  answer, which is outside this model.
\<close>

record SaveOutcome =
  returned :: "error + SaveResult promise"
  callbackCalls :: "callbackCall list"
  adapterCalls :: "eref list list"

text \<open>
  The data service adapter is a parameter: given the bundle it either throws before it
  goes asynchronous (Some) or returns its promise.
\<close>

type_synonym adapter = "eref list \<Rightarrow> heap \<Rightarrow> error option"

definition saveChanges ::
  "validator \<Rightarrow> adapter \<Rightarrow> sysenv \<Rightarrow> EntityManager \<Rightarrow> heap \<Rightarrow>
   eref list option \<Rightarrow> SaveOptions option \<Rightarrow> bool \<Rightarrow> bool \<Rightarrow>
   (SaveOutcome \<times> sysenv \<times> EntityManager \<times> heap) option" where
  "saveChanges val adapterInstance env em h entities saveOptionsArg callback errorCallback =
     (let saveOpts = (case saveOptionsArg of Some so \<Rightarrow> so | None \<Rightarrow> saveOptions em) in
      case getEntitiesToSave em h entities of
        Inl err \<Rightarrow> Some (\<lparr>returned = Inl err, callbackCalls = [], adapterCalls = []\<rparr>, env, em, h)
      | Inr entitiesToSave \<Rightarrow>
          if entitiesToSave = [] then
            (let result = \<lparr>sr_entities = [], keyMappings = []\<rparr> in
             Some (\<lparr>returned = Inr (Resolved result),
                    callbackCalls = (if callback then [Callback result] else []),
                    adapterCalls = []\<rparr>, env, em, h))
          else if \<not> allowConcurrentSaves saveOpts \<and>
                  list_ex (\<lambda>e. case aspectOf h e of None \<Rightarrow> False | Some a \<Rightarrow> isBeingSaved a)
                    entitiesToSave then
            (let err = Error ''Concurrent saves not allowed - SaveOptions.allowConcurrentSaves is false'' in
             Some (\<lparr>returned = Inr (Rejected err),
                    callbackCalls = (if errorCallback then [ErrorCallback err] else []),
                    adapterCalls = []\<rparr>, env, em, h))
          else
            (case clearServerErrors entitiesToSave em h of
               (em1, h1) \<Rightarrow>
                 (case saveChangesValidateOnClient val em1 h1 entitiesToSave of
                    (Some valError, h2) \<Rightarrow>
                      Some (\<lparr>returned = Inr (Rejected valError),
                             callbackCalls = (if errorCallback then [ErrorCallback valError] else []),
                             adapterCalls = []\<rparr>, env, em1, h2)
                  | (None, h2) \<Rightarrow>
                      (case updateConcurrencyProperties env entitiesToSave em1 h2 of
                         None \<Rightarrow> None
                       | Some (Inl err, env3, em3, h3) \<Rightarrow>
                           Some (\<lparr>returned = Inr (Rejected err),
                                  callbackCalls = (if errorCallback then [ErrorCallback err] else []),
                                  adapterCalls = []\<rparr>,
                                 env3, em3, markIsBeingSaved entitiesToSave False h3)
                       | Some (Inr u, env3, em3, h3) \<Rightarrow>
                           (case adapterInstance entitiesToSave h3 of
                              Some err \<Rightarrow>
                                Some (\<lparr>returned = Inr (Rejected err),
                                       callbackCalls = (if errorCallback then [ErrorCallback err] else []),
                                       adapterCalls = [entitiesToSave]\<rparr>,
                                      env3, em3, markIsBeingSaved entitiesToSave False h3)
                            | None \<Rightarrow>
                                Some (\<lparr>returned = Inr Pending, callbackCalls = [],
                                       adapterCalls = [entitiesToSave]\<rparr>, env3, em3, h3))))))"

subsection \<open>The local query evaluator\<close>

datatype 'p queryItem = Ent eref | Proj 'p

record 'p EntityQuery =
  fromEntityType :: EntityType
  wherePredicate :: "(heap \<Rightarrow> eref \<Rightarrow> bool) option"
  q_queryOptions :: "QueryOptions option"
  orderByClause :: "(heap \<Rightarrow> eref \<Rightarrow> eref \<Rightarrow> int) option"
  inlineCountEnabled :: bool
  skipCount :: "nat option"
  takeCount :: "nat option"
  selectClause :: "(heap \<Rightarrow> eref \<Rightarrow> 'p) option"

record 'p QueryResult =
  results :: "'p queryItem list"
  inlineCount :: "nat option"

definition firstDefined :: "('a \<Rightarrow> 'b option) \<Rightarrow> 'a option list \<Rightarrow> 'b option" where
  "firstDefined f sources =
     (case List.map_filter (\<lambda>s. case s of None \<Rightarrow> None | Some x \<Rightarrow> f x) sources of
        [] \<Rightarrow> None
      | v # vs \<Rightarrow> Some v)"

definition QueryOptions_resolve :: "QueryOptions option list \<Rightarrow> QueryOptions" where
  "QueryOptions_resolve sources =
     \<lparr>mergeStrategy = firstDefined mergeStrategy sources,
      includeDeleted = firstDefined includeDeleted sources\<rparr>"

definition newEntityGroup :: "string \<Rightarrow> EntityGroup" where
  "newEntityGroup typeName = \<lparr>g_entityType = typeName, u_entities = []\<rparr>"

definition findOrCreateEntityGroup :: "EntityManager \<Rightarrow> string \<Rightarrow> EntityGroup \<times> EntityManager" where
  "findOrCreateEntityGroup em typeName =
     (case map_of (u_entityGroupMap em) typeName of
        Some grp \<Rightarrow> (grp, em)
      | None \<Rightarrow>
          (newEntityGroup typeName,
           em\<lparr>u_entityGroupMap := u_entityGroupMap em @ [(typeName, newEntityGroup typeName)]\<rparr>))"

fun findOrCreateEntityGroups :: "EntityManager \<Rightarrow> string list \<Rightarrow> EntityGroup list \<times> EntityManager" where
  "findOrCreateEntityGroups em [] = ([], em)"
| "findOrCreateEntityGroups em (et # ets) =
     (case findOrCreateEntityGroup em et of
        (g, em1) \<Rightarrow>
          (case findOrCreateEntityGroups em1 ets of
             (gs, em2) \<Rightarrow> (g # gs, em2)))"

type_synonym arraySort = "(eref \<Rightarrow> eref \<Rightarrow> int) \<Rightarrow> eref list \<Rightarrow> eref list"

definition executeQueryLocallyCore ::
  "arraySort \<Rightarrow> QueryOptions \<Rightarrow> EntityManager \<Rightarrow> heap \<Rightarrow> 'p EntityQuery \<Rightarrow>
   'p QueryResult \<times> EntityManager" where
  "executeQueryLocallyCore sortFn defaultInstance em h query =
     (case findOrCreateEntityGroups em (selfAndSubtypes (fromEntityType query)) of
        (groups, em1) \<Rightarrow>
          (let queryOpts = QueryOptions_resolve
                 [q_queryOptions query, Some (queryOptions em), Some defaultInstance];
               inclDeleted = (includeDeleted queryOpts = Some True);
               newFilterFunc = (\<lambda>slot.
                  case slot of
                    None \<Rightarrow> False
                  | Some entity \<Rightarrow>
                      (inclDeleted \<or> stateOf h entity \<noteq> Some Deleted) \<and>
                      (case wherePredicate query of None \<Rightarrow> True | Some filterFunc \<Rightarrow> filterFunc h entity));
               result0 = concat (map (\<lambda>grp. List.map_filter id (filter newFilterFunc (u_entities grp))) groups);
               result1 = (case orderByClause query of
                            None \<Rightarrow> result0
                          | Some comparer \<Rightarrow> sortFn (comparer h) result0);
               inlineCnt = (if inlineCountEnabled query then Some (length result1) else None);
               result2 = (case skipCount query of
                            None \<Rightarrow> result1
                          | Some n \<Rightarrow> if n \<noteq> 0 then drop n result1 else result1);
               result3 = (case takeCount query of
                            None \<Rightarrow> result2
                          | Some n \<Rightarrow> if n \<noteq> 0 then take n result2 else result2);
               result4 = (case selectClause query of
                            None \<Rightarrow> map Ent result3
                          | Some selectFn \<Rightarrow> map (\<lambda>e. Proj (selectFn h e)) result3)
           in (\<lparr>results = result4, inlineCount = inlineCnt\<rparr>, em1)))"

definition executeQueryLocally ::
  "arraySort \<Rightarrow> QueryOptions \<Rightarrow> EntityManager \<Rightarrow> heap \<Rightarrow> 'p EntityQuery \<Rightarrow> 'p queryItem list \<times> EntityManager" where
  "executeQueryLocally sortFn defaultInstance em h query =
     (case executeQueryLocallyCore sortFn defaultInstance em h query of
        (qr, em1) \<Rightarrow> (results qr, em1))"

subsection \<open>Keys and lookup by key\<close>

definition mkEntityKey :: "EntityType \<Rightarrow> jsval list \<Rightarrow> EntityKey" where
  "mkEntityKey et vals =
     \<lparr>ek_typeName = et_name et, ek_baseTypes = baseEntityTypes et,
      ek_subtypes = selfAndSubtypes et, ek_values = vals\<rparr>"

definition keyToString :: "EntityKey \<Rightarrow> keyString" where
  "keyToString k = (ek_typeName k, ek_values k)"

definition keyToStringAs :: "EntityKey \<Rightarrow> string \<Rightarrow> keyString" where
  "keyToStringAs k altEntityType = (altEntityType, ek_values k)"

definition keyValuesOf :: "Entity \<Rightarrow> jsval list" where
  "keyValuesOf ent = map (\<lambda>kp. getProperty ent (dp_name kp)) (keyProperties (entityType ent))"

definition aspect_getKey :: "Entity \<Rightarrow> EntityKey" where
  "aspect_getKey ent = mkEntityKey (entityType ent) (keyValuesOf ent)"

fun firstFound :: "('a \<Rightarrow> 'b option) \<Rightarrow> 'a list \<Rightarrow> 'b option" where
  "firstFound f [] = None"
| "firstFound f (x # xs) = (case f x of Some y \<Rightarrow> Some y | None \<Rightarrow> firstFound f xs)"

text \<open>
  Modelled from the spec: \<^verbatim>\<open>EntityGroup.findEntityByKey\<close> is not in the manager's
  file. Per the spec every entity of a group is indexed by its current key and no two
  share a key; the lookup compares the key values only (the manager's comment: the group
  version does not care about the entity type).
\<close>

definition group_findEntityByKey :: "heap \<Rightarrow> EntityGroup \<Rightarrow> EntityKey \<Rightarrow> eref option" where
  "group_findEntityByKey h g key =
     List.find (\<lambda>e. case h e of None \<Rightarrow> False | Some ent \<Rightarrow> keyValuesOf ent = ek_values key)
       (List.map_filter id (u_entities g))"

text \<open>
  \<^verbatim>\<open>getEntityByKey\<close>: the first hit among the groups of the key's type and subtypes
  (a type without subtypes is its own only subtype).
\<close>

definition getEntityByKey :: "EntityManager \<Rightarrow> heap \<Rightarrow> EntityKey \<Rightarrow> eref option" where
  "getEntityByKey em h entityKey =
     firstFound (\<lambda>et. case map_of (u_entityGroupMap em) et of
                         None \<Rightarrow> None
                       | Some grp \<Rightarrow> group_findEntityByKey h grp entityKey)
       (ek_subtypes entityKey)"

definition overwriteValues :: "heap \<Rightarrow> eref \<Rightarrow> (string \<times> jsval) list \<Rightarrow> heap" where
  "overwriteValues h target vals =
     (case h target of
        None \<Rightarrow> h
      | Some ent \<Rightarrow> h(target \<mapsto> ent\<lparr>props := fold (\<lambda>(k, v) ps. AList.update k v ps) vals (props ent)\<rparr>))"

text \<open>
  Modelled from the spec: \<^verbatim>\<open>EntityGroup.attachEntity\<close> is not in the manager's file.
  An entity whose key is not in the group is indexed, given the state and this manager as
  owner, and returned. On a collision the cached instance is returned, after the
  resolution of the spec's table: Disallowed is an error; OverwriteChanges overwrites
  values and state; PreserveChanges does so when the cached entity is Unchanged; otherwise
  (SkipMerge, or no strategy given) the cached entity is kept as it is.
\<close>

definition group_attachEntity ::
  "string \<Rightarrow> eref \<Rightarrow> EntityState \<Rightarrow> MergeStrategy option \<Rightarrow> EntityManager \<Rightarrow> heap \<Rightarrow>
   (error + eref) \<times> EntityManager \<times> heap" where
  "group_attachEntity gname entity s ms em h =
     (case map_of (u_entityGroupMap em) gname of
        None \<Rightarrow> (Inl (TypeError ''entityGroup is undefined''), em, h)
      | Some g \<Rightarrow>
          (case h entity of
             None \<Rightarrow> (Inl (TypeError ''entity is undefined''), em, h)
           | Some ent \<Rightarrow>
               (case group_findEntityByKey h g (aspect_getKey ent) of
                  None \<Rightarrow>
                    (Inr entity,
                     em\<lparr>u_entityGroupMap :=
                          AList.update gname (g\<lparr>u_entities := u_entities g @ [Some entity]\<rparr>)
                            (u_entityGroupMap em)\<rparr>,
                     updAspect h entity (\<lambda>a. a\<lparr>entityState := s, entityManager := Some (this em)\<rparr>))
                | Some target \<Rightarrow>
                    if ms = Some Disallowed then
                      (Inl (Error ''An entity with the same key is already attached and the MergeStrategy is Disallowed''),
                       em, h)
                    else if ms = Some OverwriteChanges \<or>
                            (ms = Some PreserveChanges \<and> stateOf h target = Some Unchanged) then
                      (case aspect_setEntityState target s em (overwriteValues h target (props ent)) of
                         (em', h') \<Rightarrow> (Inr target, em', h'))
                    else (Inr target, em, h))))"

subsection \<open>The UnattachedChildrenMap\<close>

definition sameNavigationProperty :: "NavigationProperty \<Rightarrow> NavigationProperty \<Rightarrow> bool" where
  "sameNavigationProperty a b = (np_parentType a = np_parentType b \<and> np_name a = np_name b)"

text \<open>
  \<^verbatim>\<open>getTuples\<close>: the array under the key's own string form or, failing that, under
  the string form for the nearest base type that has one; with it, the string form it was
  found under (the array is shared with the map, and the callers change it in place).
\<close>

definition getTuplesSlot :: "UnattachedChildrenMap \<Rightarrow> EntityKey \<Rightarrow> (keyString \<times> UnattachedTuple list) option" where
  "getTuplesSlot m parentEntityKey =
     firstFound (\<lambda>ks. case map_of m ks of None \<Rightarrow> None | Some tuples \<Rightarrow> Some (ks, tuples))
       (keyToString parentEntityKey # map (keyToStringAs parentEntityKey) (ek_baseTypes parentEntityKey))"

definition getTuples :: "UnattachedChildrenMap \<Rightarrow> EntityKey \<Rightarrow> UnattachedTuple list option" where
  "getTuples m parentEntityKey = map_option snd (getTuplesSlot m parentEntityKey)"

definition getTuple :: "UnattachedChildrenMap \<Rightarrow> EntityKey \<Rightarrow> NavigationProperty \<Rightarrow> UnattachedTuple option" where
  "getTuple m parentEntityKey navigationProperty =
     (case getTuples m parentEntityKey of
        None \<Rightarrow> None
      | Some tuples \<Rightarrow> List.find (\<lambda>t. sameNavigationProperty (ut_navigationProperty t) navigationProperty) tuples)"

fun pushChild :: "NavigationProperty \<Rightarrow> eref \<Rightarrow> UnattachedTuple list \<Rightarrow> UnattachedTuple list" where
  "pushChild np child [] = []"
| "pushChild np child (t # ts) =
     (if sameNavigationProperty (ut_navigationProperty t) np
      then t\<lparr>ut_children := ut_children t @ [child]\<rparr> # ts
      else t # pushChild np child ts)"

definition addChild ::
  "UnattachedChildrenMap \<Rightarrow> EntityKey \<Rightarrow> NavigationProperty \<Rightarrow> eref \<Rightarrow> UnattachedChildrenMap" where
  "addChild m parentEntityKey navigationProperty child =
     (case getTuple m parentEntityKey navigationProperty of
        Some tuple \<Rightarrow>
          (case getTuplesSlot m parentEntityKey of
             None \<Rightarrow> m
           | Some (ks, tuples) \<Rightarrow> AList.update ks (pushChild navigationProperty child tuples) m)
      | None \<Rightarrow>
          (let ks = keyToString parentEntityKey;
               existing = (case map_of m ks of None \<Rightarrow> [] | Some tuples \<Rightarrow> tuples)
           in AList.update ks
                (existing @ [\<lparr>ut_navigationProperty = navigationProperty, ut_children = [child]\<rparr>]) m))"

fun removeFirst :: "('a \<Rightarrow> bool) \<Rightarrow> 'a list \<Rightarrow> 'a list" where
  "removeFirst P [] = []"
| "removeFirst P (x # xs) = (if P x then xs else x # removeFirst P xs)"

definition removeChildren ::
  "UnattachedChildrenMap \<Rightarrow> EntityKey \<Rightarrow> NavigationProperty option \<Rightarrow> UnattachedChildrenMap" where
  "removeChildren m parentEntityKey navigationProperty =
     (case getTuplesSlot m parentEntityKey of
        None \<Rightarrow> m
      | Some (ks, tuples) \<Rightarrow>
          (let tuples' = removeFirst
                 (\<lambda>t. case navigationProperty of
                         None \<Rightarrow> False
                       | Some np \<Rightarrow> sameNavigationProperty (ut_navigationProperty t) np) tuples;
               m' = AList.update ks tuples' m
           in if tuples' = [] then AList.delete (keyToString parentEntityKey) m' else m'))"

definition getChildren ::
  "heap \<Rightarrow> UnattachedChildrenMap \<Rightarrow> EntityKey \<Rightarrow> NavigationProperty \<Rightarrow> eref list option" where
  "getChildren h m parentEntityKey navigationProperty =
     (case getTuple m parentEntityKey navigationProperty of
        Some tuple \<Rightarrow> Some (filter (\<lambda>child. stateOf h child \<noteq> Some Detached) (ut_children tuple))
      | None \<Rightarrow> None)"

subsection \<open>The relationship linker\<close>

text \<open>
  The values of the navigation properties: the entity a scalar property refers to, and
  the entities of a collection property. The property interceptors that maintain them
  are not in the manager's file; inside the loading scope, where the linker runs, a write
  to a navigation property promotes no state, and it is modelled as the plain store of
  the value. The linker therefore reads the heap and the groups and writes only the
  navigation values and the unattached children.
\<close>

record NavStore =
  scalars :: "eref \<times> string \<Rightarrow> eref option"
  collections :: "eref \<times> string \<Rightarrow> eref list"

definition setScalar :: "eref \<Rightarrow> string \<Rightarrow> eref \<Rightarrow> NavStore \<Rightarrow> NavStore" where
  "setScalar e name v nav = nav\<lparr>scalars := (scalars nav)((e, name) := Some v)\<rparr>"

definition pushTo :: "eref \<Rightarrow> string \<Rightarrow> eref \<Rightarrow> NavStore \<Rightarrow> NavStore" where
  "pushTo e name v nav = nav\<lparr>collections := (collections nav)((e, name) := collections nav (e, name) @ [v])\<rparr>"

type_synonym linkState = "error option \<times> UnattachedChildrenMap \<times> NavStore"

text \<open>The body of the loop over the tuples buffered under the key of the attaching entity.\<close>

definition drainTuple :: "heap \<Rightarrow> eref \<Rightarrow> EntityKey \<Rightarrow> UnattachedTuple \<Rightarrow> linkState \<Rightarrow> linkState" where
  "drainTuple h entity entityKey tpl st =
     (case st of
        (Some err, m, nav) \<Rightarrow> st
      | (None, m, nav) \<Rightarrow>
          (let unattachedChildren = filter (\<lambda>e. stateOf h e \<noteq> Some Detached) (ut_children tpl);
               np = ut_navigationProperty tpl
           in case inverse np of
                Some parentToChildNp \<Rightarrow>
                  if np_isScalar parentToChildNp then
                    (case unattachedChildren of
                       [] \<Rightarrow> (Some (TypeError ''onlyChild is undefined''), m,
                               nav\<lparr>scalars := (scalars nav)((entity, np_name parentToChildNp) := None)\<rparr>)
                     | onlyChild # others \<Rightarrow>
                         (None, removeChildren m entityKey (Some np),
                          setScalar onlyChild (np_name np) entity
                            (setScalar entity (np_name parentToChildNp) onlyChild nav)))
                  else
                    (None, removeChildren m entityKey (Some np),
                     fold (\<lambda>child n. setScalar child (np_name np) entity
                                        (pushTo entity (np_name parentToChildNp) child n))
                       unattachedChildren nav)
              | None \<Rightarrow>
                  if np_isScalar np then
                    (None, removeChildren m entityKey (Some np),
                     fold (\<lambda>child n. setScalar child (np_name np) entity n) unattachedChildren nav)
                  else
                    (None, removeChildren m entityKey None,
                     fold (\<lambda>child n. pushTo entity (np_name np) child n) unattachedChildren nav)))"

text \<open>
  Modelled from the spec: \<^verbatim>\<open>entityAspect.getParentKey(np)\<close> is not in the manager's
  file; it is the key of the other end's type made of the values of the foreign key
  properties behind the navigation property, when there are any. The metadata store
  gives the type by its name.
\<close>

type_synonym metadata = "string \<Rightarrow> EntityType option"

definition getParentKey :: "metadata \<Rightarrow> Entity \<Rightarrow> NavigationProperty \<Rightarrow> EntityKey option" where
  "getParentKey md ent np =
     (case relatedDataProperties np of
        None \<Rightarrow> None
      | Some fkNames \<Rightarrow>
          if fkNames = [] then None
          else (case md (np_entityType np) of
                  None \<Rightarrow> None
                | Some parentType \<Rightarrow> Some (mkEntityKey parentType (map (getProperty ent) fkNames))))"

definition isEmptyKey :: "EntityKey \<Rightarrow> bool" where
  "isEmptyKey k = list_all (\<lambda>v. v = JNull \<or> v = JUndefined \<or> v = JStr []) (ek_values k)"

definition linkToParent ::
  "metadata \<Rightarrow> EntityManager \<Rightarrow> heap \<Rightarrow> eref \<Rightarrow> Entity \<Rightarrow> NavigationProperty \<Rightarrow> linkState \<Rightarrow> linkState" where
  "linkToParent md em h entity ent np st =
     (case st of
        (Some err, m, nav) \<Rightarrow> st
      | (None, m, nav) \<Rightarrow>
          if np_isScalar np \<and> scalars nav (entity, np_name np) \<noteq> None then st
          else
            (case getParentKey md ent np of
               None \<Rightarrow> st
             | Some parentKey \<Rightarrow>
                 if isEmptyKey parentKey then st
                 else (case getEntityByKey em h parentKey of
                         Some parent \<Rightarrow> (None, m, setScalar entity (np_name np) parent nav)
                       | None \<Rightarrow> (None, addChild m parentKey np entity, nav))))"

definition linkByForeignKey ::
  "metadata \<Rightarrow> EntityManager \<Rightarrow> heap \<Rightarrow> eref \<Rightarrow> Entity \<Rightarrow> ForeignKeyProperty \<Rightarrow> linkState \<Rightarrow> linkState" where
  "linkByForeignKey md em h entity ent fkProp st =
     (case st of
        (Some err, m, nav) \<Rightarrow> st
      | (None, m, nav) \<Rightarrow>
          (case inverseNavigationProperty fkProp of
             None \<Rightarrow> st
           | Some invNp \<Rightarrow>
               (case md (np_parentType invNp) of
                  None \<Rightarrow> (Some (TypeError ''parentType is undefined''), m, nav)
                | Some parentType \<Rightarrow>
                    (let parentKey = mkEntityKey parentType [getProperty ent (fk_name fkProp)] in
                     case getEntityByKey em h parentKey of
                       Some parent \<Rightarrow>
                         if np_isScalar invNp then (None, m, setScalar parent (np_name invNp) entity nav)
                         else (None, m, pushTo parent (np_name invNp) entity nav)
                     | None \<Rightarrow> (None, addChild m parentKey invNp entity, nav)))))"

definition u_linkRelatedEntities ::
  "metadata \<Rightarrow> EntityManager \<Rightarrow> heap \<Rightarrow> NavStore \<Rightarrow> eref \<Rightarrow> error option \<times> EntityManager \<times> NavStore" where
  "u_linkRelatedEntities md em h nav entity =
     (case h entity of
        None \<Rightarrow> (Some (TypeError ''entity is undefined''), em, nav)
      | Some ent \<Rightarrow>
          (let unattachedMap = u_unattachedChildrenMap em;
               entityKey = aspect_getKey ent;
               st1 = (case getTuples unattachedMap entityKey of
                        None \<Rightarrow> (None, unattachedMap, nav)
                      | Some tuples \<Rightarrow> fold (drainTuple h entity entityKey) tuples (None, unattachedMap, nav));
               st2 = fold (linkToParent md em h entity ent) (navigationProperties (entityType ent)) st1;
               st3 = fold (linkByForeignKey md em h entity ent) (foreignKeyProperties (entityType ent)) st2
           in case st3 of
                (err, m, nav') \<Rightarrow> (err, em\<lparr>u_unattachedChildrenMap := m\<rparr>, nav')))"

subsection \<open>importEntities\<close>

text \<open>The export bundle, as far as the import reads it.\<close>

record SerializedKey =
  sk_entityType :: string
  sk_keyValues :: "jsval list"

record RawAspect =
  ra_entityState :: string
  tempNavPropNames :: "string list option"
  originalValuesMap :: "(string \<times> jsval) list option"

record RawEntity =
  raw_values :: "(string \<times> jsval) list"
  raw_entityAspect :: RawAspect

record ImportedSettings =
  is_saveOptions :: SaveOptions
  is_queryOptions :: QueryOptions
  is_validateOnAttach :: bool
  is_validateOnSave :: bool

record ExportBundle =
  b_metadataStore :: "ImportedSettings option"
  tempKeys :: "SerializedKey list"
  entityGroupMap :: "(string \<times> RawEntity list) list"

record ImportResult =
  ir_entities :: "eref list"
  tempKeyMapping :: "(keyString \<times> EntityKey) list"

definition EntityState_fromName :: "string \<Rightarrow> EntityState option" where
  "EntityState_fromName name =
     (if name = ''Detached'' then Some Detached
      else if name = ''Added'' then Some Added
      else if name = ''Unchanged'' then Some Unchanged
      else if name = ''Modified'' then Some Modified
      else if name = ''Deleted'' then Some Deleted
      else None)"

definition getMappedKey :: "(keyString \<times> EntityKey) list \<Rightarrow> EntityKey \<Rightarrow> EntityKey option" where
  "getMappedKey tempKeyMap entityKey =
     (case map_of tempKeyMap (keyToString entityKey) of
        Some newKey \<Rightarrow> Some newKey
      | None \<Rightarrow> firstFound (\<lambda>st. map_of tempKeyMap (keyToStringAs entityKey st)) (ek_subtypes entityKey))"

text \<open>
  The key generator is pluggable and not in the manager's file: a parameter, with a state
  of its own. \<^verbatim>\<open>generateTempKeyValue(etype, valueIfAvail)\<close> takes the generator's
  state, the type and the value offered (undefined when none) and gives the key value and
  the generator's next state.
\<close>

type_synonym 'g keyGenerator = "'g \<Rightarrow> EntityType \<Rightarrow> jsval \<Rightarrow> jsval \<times> 'g"

definition firstValue :: "jsval list \<Rightarrow> jsval" where
  "firstValue vs = (case vs of [] \<Rightarrow> JUndefined | v # rest \<Rightarrow> v)"

fun buildTempKeyMap ::
  "'g keyGenerator \<Rightarrow> metadata \<Rightarrow> SerializedKey list \<Rightarrow> (keyString \<times> EntityKey) list \<Rightarrow> 'g \<Rightarrow>
   error + ((keyString \<times> EntityKey) list \<times> 'g)" where
  "buildTempKeyMap gen md [] tempKeyMap g = Inr (tempKeyMap, g)"
| "buildTempKeyMap gen md (k # ks) tempKeyMap g =
     (case md (sk_entityType k) of
        None \<Rightarrow> Inl (Error ''Unable to locate the EntityType of a temp key'')
      | Some et \<Rightarrow>
          (let oldKey = mkEntityKey et (sk_keyValues k) in
           case gen g et (firstValue (ek_values oldKey)) of
             (v, g') \<Rightarrow>
               buildTempKeyMap gen md ks
                 (AList.update (keyToString oldKey) (mkEntityKey et [v]) tempKeyMap) g'))"

text \<open>\<^verbatim>\<open>new EntityAspect(entity)\<close>: detached, owned by no manager.\<close>

definition newEntityAspect :: EntityAspect where
  "newEntityAspect =
     \<lparr>entityState = Detached, entityManager = None, u_inProcessEntity = None,
      isBeingSaved = False, hasTempKey = False, originalValues = [], u_validationErrors = []\<rparr>"

text \<open>
  Modelled from the spec: \<^verbatim>\<open>etype._updateTargetFromRaw\<close> is not in the manager's
  file; it overwrites the values of the target with those of the raw entity, and takes the
  original values the raw entity's aspect block carries.
\<close>

definition updateTargetFromRaw :: "heap \<Rightarrow> eref \<Rightarrow> RawEntity \<Rightarrow> heap" where
  "updateTargetFromRaw h target rawEntity =
     (let h1 = overwriteValues h target (raw_values rawEntity) in
      case originalValuesMap (raw_entityAspect rawEntity) of
        None \<Rightarrow> h1
      | Some ovs \<Rightarrow> updAspect h1 target (\<lambda>a. a\<lparr>originalValues := ovs\<rparr>))"

definition getEntityKeyFromRawEntity :: "EntityType \<Rightarrow> RawEntity \<Rightarrow> EntityKey" where
  "getEntityKeyFromRawEntity et rawEntity =
     mkEntityKey et
       (map (\<lambda>kp. case map_of (raw_values rawEntity) (dp_name kp) of None \<Rightarrow> JUndefined | Some v \<Rightarrow> v)
          (keyProperties et))"

type_synonym importState = "error option \<times> EntityManager \<times> heap"

text \<open>The body of the loop over \<^verbatim>\<open>tempNavPropNames\<close>: the fix-up of one foreign key.\<close>

definition fixupForeignKey ::
  "metadata \<Rightarrow> EntityType \<Rightarrow> (keyString \<times> EntityKey) list \<Rightarrow> eref \<Rightarrow> string \<Rightarrow>
   importState \<Rightarrow> importState" where
  "fixupForeignKey md etype tempKeyMap targetEntity npName st =
     (case st of
        (Some err, em, h) \<Rightarrow> st
      | (None, em, h) \<Rightarrow>
          (case List.find (\<lambda>np. np_name np = npName) (navigationProperties etype) of
             None \<Rightarrow> (Some (TypeError ''np is undefined''), em, h)
           | Some np \<Rightarrow>
               (case relatedDataProperties np of
                  None \<Rightarrow> (Some (TypeError ''relatedDataProperties is undefined''), em, h)
                | Some [] \<Rightarrow> (Some (TypeError ''relatedDataProperties[0] is undefined''), em, h)
                | Some (fkPropName # others) \<Rightarrow>
                    (case md (np_entityType np) of
                       None \<Rightarrow> (Some (TypeError ''etype is undefined''), em, h)
                     | Some parentType \<Rightarrow>
                         (let oldFkValue = (case h targetEntity of
                                              None \<Rightarrow> JUndefined
                                            | Some ent \<Rightarrow> getProperty ent fkPropName);
                              fk = mkEntityKey parentType [oldFkValue]
                          in case getMappedKey tempKeyMap fk of
                               None \<Rightarrow> (Some (TypeError ''newFk is null''), em, h)
                             | Some newFk \<Rightarrow>
                                 (case entity_setProperty targetEntity fkPropName
                                         (firstValue (ek_values newFk)) em h of
                                    (em', h') \<Rightarrow> (None, em', h')))))))"

text \<open>
  The body of the loop of \<^verbatim>\<open>importEntityGroup\<close> over the raw entities of a group. A
  new instance is the object at the next free reference \<open>nxt\<close>.
\<close>

definition importRawEntity ::
  "metadata \<Rightarrow> string \<Rightarrow> EntityType \<Rightarrow> MergeStrategy option \<Rightarrow> (keyString \<times> EntityKey) list \<Rightarrow>
   RawEntity \<Rightarrow> eref \<Rightarrow> EntityManager \<Rightarrow> heap \<Rightarrow> (error + eref) \<times> eref \<times> EntityManager \<times> heap" where
  "importRawEntity md gname etype mergeStrat tempKeyMap rawEntity nxt em h =
     (let newAspect = raw_entityAspect rawEntity;
          entityKey = getEntityKeyFromRawEntity etype rawEntity;
          stateName = EntityState_fromName (ra_entityState newAspect)
      in if stateName = None \<or> stateName = Some Detached then
           (Inl (Error ''Only entities with a non detached entity state may be imported.''), nxt, em, h)
         else
           (let entityState = (case stateName of Some s \<Rightarrow> s | None \<Rightarrow> Detached);
                newTempKey = (if entityState = Added then getMappedKey tempKeyMap entityKey else None);
                found = (case newTempKey of
                           Some k \<Rightarrow> None
                         | None \<Rightarrow>
                             (case map_of (u_entityGroupMap em) gname of
                                None \<Rightarrow> None
                              | Some grp \<Rightarrow> group_findEntityByKey h grp entityKey))
            in case found of
                 Some targetEntity \<Rightarrow>
                   if mergeStrat = Some SkipMerge then (Inr targetEntity, nxt, em, h)
                   else if mergeStrat = Some Disallowed then
                     (Inl (Error ''A MergeStrategy of Disallowed prevents the entity from being merged''),
                      nxt, em, h)
                   else if mergeStrat = Some OverwriteChanges \<or> stateOf h targetEntity = Some Unchanged then
                     (case aspect_setEntityState targetEntity entityState em
                             (updateTargetFromRaw h targetEntity rawEntity) of
                        (em1, h1) \<Rightarrow>
                          (Inr targetEntity, nxt,
                           publish (EntityChanged MergeOnImport (Some targetEntity)) em1, h1))
                   else (Inr targetEntity, nxt, em, h)
               | None \<Rightarrow>
                   (let targetEntity = nxt;
                        h0 = h(targetEntity \<mapsto>
                               \<lparr>entityType = etype, props = [], entityAspect = Some newEntityAspect\<rparr>);
                        h1 = updateTargetFromRaw h0 targetEntity rawEntity;
                        fixed =
                          (case newTempKey of
                             None \<Rightarrow> (None, em, h1)
                           | Some ntk \<Rightarrow>
                               (case keyProperties etype of
                                  [] \<Rightarrow> (Some (TypeError ''keyProperties[0] is undefined''), em,
                                          updAspect h1 targetEntity (\<lambda>a. a\<lparr>hasTempKey := True\<rparr>))
                                | kp # others \<Rightarrow>
                                    (case entity_setProperty targetEntity (dp_name kp)
                                            (firstValue (ek_values ntk)) em
                                            (updAspect h1 targetEntity (\<lambda>a. a\<lparr>hasTempKey := True\<rparr>)) of
                                       (em2, h2) \<Rightarrow>
                                         fold (fixupForeignKey md etype tempKeyMap targetEntity)
                                           (case tempNavPropNames newAspect of None \<Rightarrow> [] | Some ns \<Rightarrow> ns)
                                           (None, em2, h2))))
                    in case fixed of
                         (Some err, em3, h3) \<Rightarrow> (Inl err, Suc nxt, em3, h3)
                       | (None, em3, h3) \<Rightarrow>
                           (case group_attachEntity gname targetEntity entityState None em3 h3 of
                              (Inl err, em4, h4) \<Rightarrow> (Inl err, Suc nxt, em4, h4)
                            | (Inr attached, em4, h4) \<Rightarrow>
                                (let em5 = publish (EntityChanged AttachOnImport (Some attached)) em4 in
                                 (Inr attached, Suc nxt,
                                  (if entityState \<noteq> Unchanged
                                   then u_notifyStateChange attached True em5 h4 else em5),
                                  h4))))))"

fun importEntityGroup ::
  "metadata \<Rightarrow> string \<Rightarrow> EntityType \<Rightarrow> MergeStrategy option \<Rightarrow> (keyString \<times> EntityKey) list \<Rightarrow>
   RawEntity list \<Rightarrow> eref \<Rightarrow> EntityManager \<Rightarrow> heap \<Rightarrow>
   (error + eref list) \<times> eref \<times> EntityManager \<times> heap" where
  "importEntityGroup md gname etype mergeStrat tempKeyMap [] nxt em h = (Inr [], nxt, em, h)"
| "importEntityGroup md gname etype mergeStrat tempKeyMap (rawEntity # raws) nxt em h =
     (case importRawEntity md gname etype mergeStrat tempKeyMap rawEntity nxt em h of
        (Inl err, nxt1, em1, h1) \<Rightarrow> (Inl err, nxt1, em1, h1)
      | (Inr targetEntity, nxt1, em1, h1) \<Rightarrow>
          (case importEntityGroup md gname etype mergeStrat tempKeyMap raws nxt1 em1 h1 of
             (Inl err, nxt2, em2, h2) \<Rightarrow> (Inl err, nxt2, em2, h2)
           | (Inr entitiesToLink, nxt2, em2, h2) \<Rightarrow> (Inr (targetEntity # entitiesToLink), nxt2, em2, h2)))"

fun importEntityGroups ::
  "metadata \<Rightarrow> MergeStrategy option \<Rightarrow> (keyString \<times> EntityKey) list \<Rightarrow>
   (string \<times> RawEntity list) list \<Rightarrow> eref \<Rightarrow> EntityManager \<Rightarrow> heap \<Rightarrow>
   (error + eref list) \<times> eref \<times> EntityManager \<times> heap" where
  "importEntityGroups md mergeStrat tempKeyMap [] nxt em h = (Inr [], nxt, em, h)"
| "importEntityGroups md mergeStrat tempKeyMap ((typeName, jsonGroup) # rest) nxt em h =
     (case md typeName of
        None \<Rightarrow> (Inl (TypeError ''etype is null''), nxt, em, h)
      | Some etype \<Rightarrow>
          (case findOrCreateEntityGroup em (et_name etype) of
             (targetEntityGroup, em0) \<Rightarrow>
               (case importEntityGroup md (et_name etype) etype mergeStrat tempKeyMap
                       jsonGroup nxt em0 h of
                  (Inl err, nxt1, em1, h1) \<Rightarrow> (Inl err, nxt1, em1, h1)
                | (Inr entities, nxt1, em1, h1) \<Rightarrow>
                    (case importEntityGroups md mergeStrat tempKeyMap rest nxt1 em1 h1 of
                       (Inl err, nxt2, em2, h2) \<Rightarrow> (Inl err, nxt2, em2, h2)
                     | (Inr others, nxt2, em2, h2) \<Rightarrow> (Inr (entities @ others), nxt2, em2, h2)))))"

fun linkImported ::
  "metadata \<Rightarrow> heap \<Rightarrow> eref list \<Rightarrow> EntityManager \<Rightarrow> NavStore \<Rightarrow> error option \<times> EntityManager \<times> NavStore" where
  "linkImported md h [] em nav = (None, em, nav)"
| "linkImported md h (entity # rest) em nav =
     (if stateOf h entity = Some Deleted then linkImported md h rest em nav
      else (case u_linkRelatedEntities md em h nav entity of
              (Some err, em1, nav1) \<Rightarrow> (Some err, em1, nav1)
            | (None, em1, nav1) \<Rightarrow> linkImported md h rest em1 nav1))"

text \<open>The pending deferred recomputation, run when a bulk operation ends.\<close>

definition runHasChangesAction :: "EntityManager \<Rightarrow> heap \<Rightarrow> EntityManager" where
  "runHasChangesAction em h =
     (case u_hasChangesAction em of
        None \<Rightarrow> em
      | Some entity \<Rightarrow>
          publish (EntityChanged EntityStateChange (Some entity)) (u_setHasChanges None em h))"

record 'g ImportOutcome =
  io_result :: "error + ImportResult"
  io_generator :: 'g
  io_nextRef :: eref
  io_manager :: EntityManager
  io_heap :: heap
  io_nav :: NavStore

definition importEntities ::
  "'g keyGenerator \<Rightarrow> metadata \<Rightarrow> 'g \<Rightarrow> eref \<Rightarrow> EntityManager \<Rightarrow> heap \<Rightarrow> NavStore \<Rightarrow>
   ExportBundle \<Rightarrow> MergeStrategy option \<Rightarrow> 'g ImportOutcome" where
  "importEntities gen md g nxt em h nav json configMergeStrategy =
     (let mergeStrat = (case configMergeStrategy of
                          Some ms \<Rightarrow> Some ms
                        | None \<Rightarrow> mergeStrategy (queryOptions em));
          em0 = (case b_metadataStore json of
                   None \<Rightarrow> em
                 | Some st \<Rightarrow> em\<lparr>saveOptions := is_saveOptions st, queryOptions := is_queryOptions st,
                                   validateOnAttach := is_validateOnAttach st,
                                   validateOnSave := is_validateOnSave st\<rparr>)
      in case buildTempKeyMap gen md (tempKeys json) [] g of
           Inl err \<Rightarrow>
             \<lparr>io_result = Inl err, io_generator = g, io_nextRef = nxt, io_manager = em0,
              io_heap = h, io_nav = nav\<rparr>
         | Inr (tempKeyMap, g1) \<Rightarrow>
             (case importEntityGroups md mergeStrat tempKeyMap (entityGroupMap json) nxt em0 h of
                (Inl err, nxt1, em1, h1) \<Rightarrow>
                  \<lparr>io_result = Inl err, io_generator = g1, io_nextRef = nxt1,
                   io_manager = runHasChangesAction em1 h1, io_heap = h1, io_nav = nav\<rparr>
              | (Inr entitiesToLink, nxt1, em1, h1) \<Rightarrow>
                  (case linkImported md h1 entitiesToLink em1 nav of
                     (Some err, em2, nav2) \<Rightarrow>
                       \<lparr>io_result = Inl err, io_generator = g1, io_nextRef = nxt1,
                        io_manager = runHasChangesAction em2 h1, io_heap = h1, io_nav = nav2\<rparr>
                   | (None, em2, nav2) \<Rightarrow>
                       \<lparr>io_result = Inr \<lparr>ir_entities = entitiesToLink, tempKeyMapping = tempKeyMap\<rparr>,
                        io_generator = g1, io_nextRef = nxt1,
                        io_manager = runHasChangesAction em2 h1, io_heap = h1, io_nav = nav2\<rparr>)))"


subsection \<open>attachEntity\<close>

text \<open>
  The state the attach protocol works on: the key generator's state, the manager, the
  heap and the navigation values.
\<close>

type_synonym 'g world = "'g \<times> EntityManager \<times> heap \<times> NavStore"

text \<open>The comparison \<^verbatim>\<open>===\<close> of two property values.\<close>

fun strictEq :: "jsval \<Rightarrow> jsval \<Rightarrow> bool" where
  "strictEq JNaN b = False"
| "strictEq (JDate s) b = False"
| "strictEq a b = (a = b)"

text \<open>
  \<^verbatim>\<open>em.generateTempKeyValue(entity)\<close>: the next value of the key generator becomes the
  value of the first key property, and the aspect is flagged.
\<close>

definition generateTempKeyValue ::
  "'g keyGenerator \<Rightarrow> eref \<Rightarrow> 'g world \<Rightarrow> (error + jsval) \<times> 'g world" where
  "generateTempKeyValue gen entity w =
     (case w of (g, em, h, nav) \<Rightarrow>
        (case h entity of
           None \<Rightarrow> (Inl (Error ''entity is not an entity''), w)
         | Some ent \<Rightarrow>
             (case gen g (entityType ent) JUndefined of
                (nextKeyValue, g') \<Rightarrow>
                  (case keyProperties (entityType ent) of
                     [] \<Rightarrow> (Inl (TypeError ''keyProperties[0] is undefined''), (g', em, h, nav))
                   | keyProp # others \<Rightarrow>
                       (case entity_setProperty entity (dp_name keyProp) nextKeyValue em h of
                          (em', h') \<Rightarrow>
                            (Inr nextKeyValue,
                             (g', em', updAspect h' entity (\<lambda>a. a\<lparr>hasTempKey := True\<rparr>), nav)))))))"

definition checkEntityKey :: "'g keyGenerator \<Rightarrow> eref \<Rightarrow> 'g world \<Rightarrow> error option \<times> 'g world" where
  "checkEntityKey gen entity w =
     (case w of (g, em, h, nav) \<Rightarrow>
        (case h entity of
           None \<Rightarrow> (Some (TypeError ''entity is undefined''), w)
         | Some ent \<Rightarrow>
             (let ek = aspect_getKey ent;
                  keyPropsWithDefaultValues =
                    filter (\<lambda>(kp, kv). strictEq (dp_defaultValue kp) kv)
                      (zip (keyProperties (entityType ent)) (ek_values ek))
              in if keyPropsWithDefaultValues \<noteq> [] then
                   (if autoGeneratedKey (entityType ent) then
                      (case generateTempKeyValue gen entity w of
                         (Inl err, w') \<Rightarrow> (Some err, w')
                       | (Inr v, w') \<Rightarrow> (None, w'))
                    else if length keyPropsWithDefaultValues = length (ek_values ek) then
                      (Some (Error (''Cannot attach an object of type  ('' @ et_name (entityType ent)
                          @ '') to an EntityManager without first setting its key or setting its entityType 'AutoGeneratedKeyType' property to something other than 'None' '')), w)
                    else (None, w))
                 else (None, w))))"

text \<open>\<^verbatim>\<open>_attachEntityCore\<close>: the group's attach, then the relationship linker.\<close>

definition u_attachEntityCore ::
  "metadata \<Rightarrow> eref \<Rightarrow> EntityState \<Rightarrow> MergeStrategy \<Rightarrow> 'g world \<Rightarrow> (error + eref) \<times> 'g world" where
  "u_attachEntityCore md entity estate mergeStrat w =
     (case w of (g, em, h, nav) \<Rightarrow>
        (case h entity of
           None \<Rightarrow> (Inl (TypeError ''entity is undefined''), w)
         | Some ent \<Rightarrow>
             (case findOrCreateEntityGroup em (et_name (entityType ent)) of
                (grp, em0) \<Rightarrow>
                  (case group_attachEntity (et_name (entityType ent)) entity estate (Some mergeStrat) em0 h of
                     (Inl err, em1, h1) \<Rightarrow> (Inl err, (g, em1, h1, nav))
                   | (Inr attachedEntity, em1, h1) \<Rightarrow>
                       (case u_linkRelatedEntities md em1 h1 nav attachedEntity of
                          (Some err, em2, nav2) \<Rightarrow> (Inl err, (g, em2, h1, nav2))
                        | (None, em2, nav2) \<Rightarrow> (Inr attachedEntity, (g, em2, h1, nav2)))))))"

text \<open>
  The loops of \<^verbatim>\<open>attachRelatedEntities\<close>, over an attach function for the related
  entities: the inner one over the entities a navigation property holds, the outer one
  over the navigation properties of the entity's type. A throw ends both.
\<close>

type_synonym 'g attacher = "'g world \<Rightarrow> eref \<Rightarrow> ((error + eref) \<times> 'g world) option"

fun attachEach :: "'g attacher \<Rightarrow> eref list \<Rightarrow> 'g world \<Rightarrow> (error option \<times> 'g world) option" where
  "attachEach att [] w = Some (None, w)"
| "attachEach att (e # es) w =
     (case att w e of
        None \<Rightarrow> None
      | Some (Inl err, w') \<Rightarrow> Some (Some err, w')
      | Some (Inr attached, w') \<Rightarrow> attachEach att es w')"

fun attachRelatedEntities ::
  "'g attacher \<Rightarrow> eref \<Rightarrow> NavigationProperty list \<Rightarrow> 'g world \<Rightarrow> (error option \<times> 'g world) option" where
  "attachRelatedEntities att entity [] w = Some (None, w)"
| "attachRelatedEntities att entity (np # nps) w =
     (let nav = snd (snd (snd w));
          related = (if np_isScalar np
                     then (case scalars nav (entity, np_name np) of None \<Rightarrow> [] | Some r \<Rightarrow> [r])
                     else collections nav (entity, np_name np))
      in case attachEach att related w of
           None \<Rightarrow> None
         | Some (Some err, w') \<Rightarrow> Some (Some err, w')
         | Some (None, w') \<Rightarrow> attachRelatedEntities att entity nps w')"

definition setLoading :: "bool \<Rightarrow> 'g world \<Rightarrow> 'g world" where
  "setLoading b w = (case w of (g, em, h, nav) \<Rightarrow> (g, em\<lparr>isLoading := b\<rparr>, h, nav))"

definition setInProcess :: "eref \<Rightarrow> eref option \<Rightarrow> 'g world \<Rightarrow> 'g world" where
  "setInProcess entity v w =
     (case w of (g, em, h, nav) \<Rightarrow> (g, em, updAspect h entity (\<lambda>a. a\<lparr>u_inProcessEntity := v\<rparr>), nav))"

text \<open>
  What \<^verbatim>\<open>attachEntity\<close> does once the entity is known to belong to no manager: inside
  the loading scope the key check (for Added), the core attach, and the attach of the
  related entities, guarded by \<^verbatim>\<open>_inProcessEntity\<close>; then the validation, the
  notifications and the result. The loading flag is restored and the guard is cleared on
  every path.
\<close>

definition attachUnowned ::
  "'g attacher \<Rightarrow> 'g keyGenerator \<Rightarrow> metadata \<Rightarrow> validator \<Rightarrow> eref \<Rightarrow> EntityState \<Rightarrow> MergeStrategy \<Rightarrow>
   'g world \<Rightarrow> ((error + eref) \<times> 'g world) option" where
  "attachUnowned att gen md val entity estate mergeStrat w =
     (let wasLoading = isLoading (fst (snd w));
          w0 = setLoading True w
      in case (if estate = Added then checkEntityKey gen entity w0 else (None, w0)) of
           (Some err, w1) \<Rightarrow> Some (Inl err, setLoading wasLoading w1)
         | (None, w1) \<Rightarrow>
             (case u_attachEntityCore md entity estate mergeStrat w1 of
                (Inl err, w2) \<Rightarrow> Some (Inl err, setLoading wasLoading w2)
              | (Inr attachedEntity, w2) \<Rightarrow>
                  (case attachRelatedEntities att entity
                          (case fst (snd (snd w2)) entity of
                             None \<Rightarrow> []
                           | Some ent \<Rightarrow> navigationProperties (entityType ent))
                          (setInProcess entity (Some attachedEntity) w2) of
                     None \<Rightarrow> None
                   | Some (Some err, w3) \<Rightarrow>
                       Some (Inl err, setLoading wasLoading (setInProcess entity None w3))
                   | Some (None, w3) \<Rightarrow>
                       (case setLoading wasLoading (setInProcess entity None w3) of
                          (g4, em4, h4, nav4) \<Rightarrow>
                            (let h5 = (if validateOnAttach em4
                                       then snd (aspect_validateEntity val attachedEntity h4) else h4);
                                 em5 = (if estate \<noteq> Unchanged
                                        then u_notifyStateChange attachedEntity True em4 h5 else em4)
                             in Some (Inr attachedEntity,
                                      (g4, publish (EntityChanged Attach (Some attachedEntity)) em5,
                                       h5, nav4)))))))"

text \<open>
  \<^verbatim>\<open>attachEntity(entity, estate, mergeStrategy)\<close>. The recursion through the
  related entities is bounded by the fuel; None is a recursion that the fuel did not
  cover. An entity that is owned, or in process, is answered without recursion.
\<close>

primrec attachEntity ::
  "nat \<Rightarrow> 'g keyGenerator \<Rightarrow> metadata \<Rightarrow> validator \<Rightarrow> EntityState option \<Rightarrow> MergeStrategy option \<Rightarrow>
   'g world \<Rightarrow> eref \<Rightarrow> ((error + eref) \<times> 'g world) option" where
  "attachEntity 0 gen md val estateArg mergeStrategyArg w entity = None"
| "attachEntity (Suc n) gen md val estateArg mergeStrategyArg w entity =
     (case w of (g, em, h, nav) \<Rightarrow>
        (let estate = (case estateArg of None \<Rightarrow> Unchanged | Some s \<Rightarrow> s);
             mergeStrat = (case mergeStrategyArg of None \<Rightarrow> Disallowed | Some ms \<Rightarrow> ms)
         in case h entity of
              None \<Rightarrow> Some (Inl (Error ''entity is required''), w)
            | Some ent \<Rightarrow>
                if et_metadataStore (entityType ent) \<noteq> metadataStore em then
                  Some (Inl (Error (''Cannot attach this entity because the EntityType ('' @ et_name (entityType ent)
                     @ '') and MetadataStore associated with this entity does not match this EntityManager's MetadataStore.'')), w)
                else
                  (case (case entityAspect ent of None \<Rightarrow> None | Some a \<Rightarrow> u_inProcessEntity a) of
                     Some inProcess \<Rightarrow> Some (Inr inProcess, w)
                   | None \<Rightarrow>
                       (let h1 = (case entityAspect ent of
                                    None \<Rightarrow> h(entity \<mapsto> ent\<lparr>entityAspect := Some newEntityAspect\<rparr>)
                                  | Some a \<Rightarrow> h);
                            w1 = (g, em, h1, nav)
                        in case (case entityAspect ent of None \<Rightarrow> None | Some a \<Rightarrow> entityManager a) of
                             Some manager \<Rightarrow>
                               if manager = this em then Some (Inr entity, w1)
                               else Some (Inl (Error ''This entity already belongs to another EntityManager''), w1)
                           | None \<Rightarrow>
                               attachUnowned
                                 (attachEntity n gen md val (Some estate) (Some mergeStrat))
                                 gen md val entity estate mergeStrat w1))))"

definition addEntity ::
  "nat \<Rightarrow> 'g keyGenerator \<Rightarrow> metadata \<Rightarrow> validator \<Rightarrow> 'g world \<Rightarrow> eref \<Rightarrow> ((error + eref) \<times> 'g world) option" where
  "addEntity fuel gen md val w entity = attachEntity fuel gen md val (Some Added) None w entity"

subsection \<open>Observing hasChanges\<close>

text \<open>
  What \<^verbatim>\<open>hasChanges()\<close> returns in a state, and what \<^verbatim>\<open>_hasChangesCore()\<close>
  recomputes there from the states of the entities of the cache.
\<close>

definition observedHasChanges :: "'g world \<Rightarrow> bool" where
  "observedHasChanges w = (case w of (g, em, h, nav) \<Rightarrow> hasChanges em h None)"

definition recomputedHasChanges :: "'g world \<Rightarrow> bool" where
  "recomputedHasChanges w = (case w of (g, em, h, nav) \<Rightarrow> u_hasChangesCore em h None)"

subsection \<open>Example objects\<close>

definition Int32 :: DataType where
  "Int32 = \<lparr>dt_name = ''Int32'', isNumeric = True, isDate = False, dt_defaultValue = JNum 0\<rparr>"

definition customerType :: EntityType where
  "customerType =
     \<lparr>et_name = ''Customer'', et_metadataStore = 0, baseEntityTypes = [],
      keyProperties = [\<lparr>dp_name = ''id'', dataType = Int32, dp_defaultValue = JNum 0\<rparr>],
      autoGeneratedKey = True,
      concurrencyProperties = [\<lparr>dp_name = ''rowVersion'', dataType = Int32, dp_defaultValue = JNum 0\<rparr>],
      navigationProperties = [], foreignKeyProperties = [],
      selfAndSubtypes = [''Customer'']\<rparr>"

definition customer :: "int \<Rightarrow> EntityAspect option \<Rightarrow> Entity" where
  "customer k a =
     \<lparr>entityType = customerType, props = [(''id'', JNum k), (''rowVersion'', JNum 1)],
      entityAspect = a\<rparr>"

definition attachedAs :: "mref \<Rightarrow> EntityState \<Rightarrow> EntityAspect" where
  "attachedAs m s = newEntityAspect\<lparr>entityState := s, entityManager := Some m\<rparr>"

definition emptyManager :: "mref \<Rightarrow> EntityManager" where
  "emptyManager m =
     \<lparr>this = m, metadataStore = 0, u_entityGroupMap = [], u_unattachedChildrenMap = [],
      u_hasChanges = False,
      isLoading = False, u_hasChangesAction = None, validateOnAttach = False,
      validateOnSave = False, saveOptions = \<lparr>allowConcurrentSaves = False\<rparr>,
      queryOptions = \<lparr>mergeStrategy = Some PreserveChanges, includeDeleted = Some False\<rparr>,
      published = []\<rparr>"

definition noCheck :: checkOperation where
  "noCheck a opName = None"

definition cachedHeap :: "EntityState \<Rightarrow> heap" where
  "cachedHeap s = Map.empty(0 \<mapsto> customer 7 (Some (attachedAs 1 s)))"

definition cachedManager :: "bool \<Rightarrow> EntityManager" where
  "cachedManager flag =
     (emptyManager 1)
       \<lparr>u_entityGroupMap := [(''Customer'', \<lparr>g_entityType = ''Customer'', u_entities = [Some 0]\<rparr>)],
        u_hasChanges := flag\<rparr>"


definition noValidation :: validator where
  "noValidation ent = []"

definition idleAdapter :: adapter where
  "idleAdapter bundle h = None"

definition env0 :: sysenv where
  "env0 = \<lparr>clock = [1000, 1000, 1001], uuidSource = (\<lambda>n. ''uuid''), uuidCount = 0,
           dateText = (\<lambda>t. ''date'')\<rparr>"

definition propertyOf :: "heap \<Rightarrow> eref \<Rightarrow> string \<Rightarrow> jsval" where
  "propertyOf h e name = (case h e of None \<Rightarrow> JUndefined | Some ent \<Rightarrow> getProperty ent name)"

text \<open>An instance of \<^verbatim>\<open>Array.prototype.sort\<close>: insertion from the left.\<close>

fun insertBy :: "('a \<Rightarrow> 'a \<Rightarrow> int) \<Rightarrow> 'a \<Rightarrow> 'a list \<Rightarrow> 'a list" where
  "insertBy cmp x [] = [x]"
| "insertBy cmp x (y # ys) = (if cmp x y < 0 then x # y # ys else y # insertBy cmp x ys)"

definition insertionSort :: "('a \<Rightarrow> 'a \<Rightarrow> int) \<Rightarrow> 'a list \<Rightarrow> 'a list" where
  "insertionSort cmp xs = fold (insertBy cmp) xs []"

definition byId :: "heap \<Rightarrow> eref \<Rightarrow> eref \<Rightarrow> int" where
  "byId h a b =
     (case (propertyOf h a ''id'', propertyOf h b ''id'') of
        (JNum x, JNum y) \<Rightarrow> x - y
      | _ \<Rightarrow> 0)"

definition allCustomers :: "unit EntityQuery" where
  "allCustomers =
     \<lparr>fromEntityType = customerType, wherePredicate = None, q_queryOptions = None,
      orderByClause = None, inlineCountEnabled = False, skipCount = None, takeCount = None,
      selectClause = None\<rparr>"

definition noCustomers :: "unit EntityQuery" where
  "noCustomers = allCustomers\<lparr>takeCount := Some 0\<rparr>"

definition secondCustomerById :: "unit EntityQuery" where
  "secondCustomerById = allCustomers\<lparr>orderByClause := Some byId, skipCount := Some 1, takeCount := Some 1\<rparr>"

definition shopHeap :: heap where
  "shopHeap = Map.empty(0 \<mapsto> customer 7 (Some (attachedAs 1 Unchanged)),
                        1 \<mapsto> customer 3 (Some (attachedAs 1 Deleted)),
                        2 \<mapsto> customer 5 (Some (attachedAs 1 Modified)))"

definition shopManager :: EntityManager where
  "shopManager =
     (emptyManager 1)
       \<lparr>u_entityGroupMap :=
          [(''Customer'', \<lparr>g_entityType = ''Customer'', u_entities = [Some 0, Some 1, None, Some 2]\<rparr>)],
        u_hasChanges := True,
        queryOptions := \<lparr>mergeStrategy = Some OverwriteChanges, includeDeleted = Some False\<rparr>\<rparr>"

definition defaultQueryOptions :: QueryOptions where
  "defaultQueryOptions = \<lparr>mergeStrategy = Some PreserveChanges, includeDeleted = Some False\<rparr>"

definition stampHeap :: "int \<Rightarrow> (string \<times> jsval) list \<Rightarrow> bool \<Rightarrow> heap" where
  "stampHeap v ovs saving =
     Map.empty(0 \<mapsto> \<lparr>entityType = customerType,
                       props = [(''id'', JNum 7), (''rowVersion'', JNum v)],
                       entityAspect = Some ((attachedAs 1 Modified)
                          \<lparr>isBeingSaved := saving, originalValues := ovs\<rparr>)\<rparr>)"

subsection \<open>Notions used in the statements\<close>

definition ownedBy :: "EntityManager \<Rightarrow> heap \<Rightarrow> eref \<Rightarrow> bool" where
  "ownedBy em h e =
     (case aspectOf h e of None \<Rightarrow> False | Some a \<Rightarrow> entityManager a = Some (this em))"


definition noopSaveResult :: SaveResult where
  "noopSaveResult = \<lparr>sr_entities = [], keyMappings = []\<rparr>"

definition cachedEntities :: "EntityManager \<Rightarrow> string list \<Rightarrow> eref list" where
  "cachedEntities em typeNames =
     concat (map (\<lambda>n. case map_of (u_entityGroupMap em) n of
                        None \<Rightarrow> []
                      | Some g \<Rightarrow> List.map_filter id (u_entities g)) typeNames)"

definition withEmptyGroups :: "EntityManager \<Rightarrow> string list \<Rightarrow> EntityManager" where
  "withEmptyGroups em typeNames =
     em\<lparr>u_entityGroupMap := u_entityGroupMap em @
          map (\<lambda>n. (n, newEntityGroup n))
            (filter (\<lambda>n. map_of (u_entityGroupMap em) n = None) (remdups typeNames))\<rparr>"

definition onlyEmptyGroupsAdded :: "string list \<Rightarrow> EntityManager \<Rightarrow> EntityManager \<Rightarrow> bool" where
  "onlyEmptyGroupsAdded typeNames em em' =
     (\<exists>added. em' = em\<lparr>u_entityGroupMap := u_entityGroupMap em @ added\<rparr> \<and>
        list_all (\<lambda>(n, g). g = newEntityGroup n \<and> map_of (u_entityGroupMap em) n = None
                            \<and> n \<in> set typeNames) added)"

definition mergedFromRaw :: "heap \<Rightarrow> eref \<Rightarrow> RawEntity \<Rightarrow> EntityState \<Rightarrow> bool" where
  "mergedFromRaw h' cached rawEntity s =
     (stateOf h' cached = Some s \<and>
      list_all (\<lambda>(k, v). propertyOf h' cached k = v) (raw_values rawEntity))"

definition mergeOutcome ::
  "(error + eref) \<times> eref \<times> EntityManager \<times> heap \<Rightarrow> eref \<Rightarrow> RawEntity \<Rightarrow> EntityState \<Rightarrow> bool" where
  "mergeOutcome outcome cached rawEntity s =
     (case outcome of (r, nxt', em', h') \<Rightarrow> r = Inr cached \<and> mergedFromRaw h' cached rawEntity s)"

definition shopMetadata :: metadata where
  "shopMetadata name = (if name = ''Customer'' then Some customerType else None)"

definition rawCustomer :: "int \<Rightarrow> int \<Rightarrow> string \<Rightarrow> RawEntity" where
  "rawCustomer k v stateName =
     \<lparr>raw_values = [(''id'', JNum k), (''rowVersion'', JNum v)],
      raw_entityAspect = \<lparr>ra_entityState = stateName, tempNavPropNames = None, originalValuesMap = None\<rparr>\<rparr>"

text \<open>
  A key generator that hands out the offered value when it has not handed it out before,
  as the comment at the manager's call asks ("try to use oldKey if not already used in
  this keyGenerator"), and the next negative number otherwise. Its state is the list of
  the values in use.
\<close>

definition hintingGenerator :: "jsval list keyGenerator" where
  "hintingGenerator used et valueIfAvail =
     (if valueIfAvail \<noteq> JUndefined \<and> valueIfAvail \<notin> set used
      then (valueIfAvail, valueIfAvail # used)
      else (JNum (- int (Suc (length used))), JNum (- int (Suc (length used))) # used))"

definition emptyNav :: NavStore where
  "emptyNav = \<lparr>scalars = (\<lambda>x. None), collections = (\<lambda>x. [])\<rparr>"

definition tempKeyBundle :: "int \<Rightarrow> ExportBundle" where
  "tempKeyBundle k =
     \<lparr>b_metadataStore = None,
      tempKeys = [\<lparr>sk_entityType = ''Customer'', sk_keyValues = [JNum k]\<rparr>],
      entityGroupMap = [(''Customer'', [rawCustomer k 1 ''Added''])]\<rparr>"

















text \<open>What the attach protocol is observed through.\<close>

definition ownerOf :: "heap \<Rightarrow> eref \<Rightarrow> mref option" where
  "ownerOf h x = (case aspectOf h x of None \<Rightarrow> None | Some a \<Rightarrow> entityManager a)"

definition inProcessOf :: "heap \<Rightarrow> eref \<Rightarrow> eref option" where
  "inProcessOf h x = (case aspectOf h x of None \<Rightarrow> None | Some a \<Rightarrow> u_inProcessEntity a)"

definition storeOf :: "heap \<Rightarrow> eref \<Rightarrow> sref option" where
  "storeOf h x = map_option (\<lambda>ent. et_metadataStore (entityType ent)) (h x)"

definition hasAspect :: "heap \<Rightarrow> eref \<Rightarrow> bool" where
  "hasAspect h x = (aspectOf h x \<noteq> None)"

definition sameSettings :: "EntityManager \<Rightarrow> EntityManager \<Rightarrow> bool" where
  "sameSettings em em' =
     (this em' = this em \<and> metadataStore em' = metadataStore em \<and> isLoading em' = isLoading em)"

text \<open>
  What an attach under Disallowed leaves in place: the manager's identity, store and
  loading flag; the metadata store and the in-process guard of every entity; and the
  owner of every entity that has one.
\<close>

definition framed :: "'g world \<Rightarrow> 'g world \<Rightarrow> bool" where
  "framed w w' =
     (case (w, w') of
        ((g, em, h, nav), (g', em', h', nav')) \<Rightarrow>
          sameSettings em em' \<and>
          (\<forall>x. storeOf h' x = storeOf h x) \<and>
          (\<forall>x. inProcessOf h' x = inProcessOf h x) \<and>
          (\<forall>x. hasAspect h x \<longrightarrow> hasAspect h' x) \<and>
          (\<forall>x m. ownerOf h x = Some m \<longrightarrow> ownerOf h' x = Some m))"

text \<open>
  A manager with an empty cache and one customer created with an aspect and not yet
  attached; and a world as a second manager, sharing the heap and the metadata store,
  sees it.
\<close>

definition freshWorld :: "jsval list world" where
  "freshWorld = ([], emptyManager 1, Map.empty(0 \<mapsto> customer 0 (Some newEntityAspect)), emptyNav)"

text \<open>
  Customer 7 while manager 1 is attaching it: its aspect names manager 1 as the owner and
  has \<^verbatim>\<open>_inProcessEntity\<close> set, as \<^verbatim>\<open>attachEntity\<close> leaves it during the attach of
  the related entities.
\<close>

definition midAttachHeap :: heap where
  "midAttachHeap =
     Map.empty(0 \<mapsto> customer 7 (Some ((attachedAs 1 Added)\<lparr>u_inProcessEntity := Some 0\<rparr>)))"

definition seenBy :: "mref \<Rightarrow> 'g world \<Rightarrow> 'g world" where
  "seenBy m w = (case w of (g, em, h, nav) \<Rightarrow> (g, (emptyManager m)\<lparr>metadataStore := metadataStore em\<rparr>, h, nav))"

section \<open>Verified properties\<close>

subsection \<open>rejectChanges on a manager without changes\<close>

text \<open>
  C10. When the cached \<^verbatim>\<open>_hasChanges\<close> flag is false, \<^verbatim>\<open>rejectChanges()\<close> returns the
  empty array and leaves the manager (its groups, its flag, the notifications it has
  published) and every entity as they were.
\<close>

theorem rejectChanges_without_changes:
  "\<not> u_hasChanges em \<Longrightarrow> rejectChanges chk em h = (Inr [], em, h)"
  by (simp add: rejectChanges_def)


theorem rejectChanges_without_changes_witness:
  "\<not> u_hasChanges (cachedManager False) \<and>
   rejectChanges noCheck (cachedManager False) (cachedHeap Unchanged)
     = (Inr [], cachedManager False, cachedHeap Unchanged)"
  using rejectChanges_without_changes [of "cachedManager False" noCheck "cachedHeap Unchanged"]
  by (simp add: cachedManager_def emptyManager_def)

subsection \<open>detachEntity\<close>

lemma detachEntity_no_aspect:
  "h e = Some ent \<Longrightarrow> entityAspect ent = None \<Longrightarrow> detachEntity em h e = (Inr False, em, h)"
  by (simp add: detachEntity_def)

lemma detachEntity_foreign:
  "h e = Some ent \<Longrightarrow> entityAspect ent = Some a \<Longrightarrow> entityManager a \<noteq> Some (this em) \<Longrightarrow>
   detachEntity em h e
     = (Inl (Error ''This entity does not belong to this EntityManager.''), em, h)"
  by (simp add: detachEntity_def)

text \<open>
  C9. An entity that was created but never attached has an aspect in state Detached with
  no manager. \<^verbatim>\<open>detachEntity\<close> compares the aspect's manager with the receiver before it
  asks the aspect, so for this entity it throws instead of returning false.
\<close>

theorem detachEntity_never_attached_throws:
  "detachEntity (emptyManager 1) (Map.empty(0 \<mapsto> customer 7 (Some newEntityAspect))) 0
     = (Inl (Error ''This entity does not belong to this EntityManager.''),
        emptyManager 1, Map.empty(0 \<mapsto> customer 7 (Some newEntityAspect)))"
  by (simp add: detachEntity_def customer_def newEntityAspect_def emptyManager_def)


subsection \<open>saveChanges before the transport call\<close>

lemma filterEntitiesToSave_owned:
  "list_all (ownedBy em h) es \<Longrightarrow>
   filterEntitiesToSave em h es = Inr (filter (\<lambda>e. stateOf h e \<noteq> Some Detached) es)"
  by (induction es) (auto simp: ownedBy_def stateOf_def split: option.splits)




text \<open>
  C6. An entity that was detached (or never attached) has an aspect whose manager
  reference is empty. \<^verbatim>\<open>saveChanges([entity])\<close> on it has an empty target set once the
  Detached entities are excluded, but \<^verbatim>\<open>getEntitiesToSave\<close> tests the owner before
  its own test \<^verbatim>\<open>!isDetached()\<close>, and throws: no result
  \<^verbatim>\<open>{ entities: [], keyMappings: [] }\<close> is returned and no callback is called.
\<close>

theorem saveChanges_detached_entity_throws:
  "filter (\<lambda>e. stateOf (Map.empty(0 \<mapsto> customer 7 (Some newEntityAspect))) e \<noteq> Some Detached) [0] = [] \<and>
   saveChanges noValidation idleAdapter env0 (emptyManager 1)
       (Map.empty(0 \<mapsto> customer 7 (Some newEntityAspect))) (Some [0]) None True True
     = Some (\<lparr>returned = Inl (Error ''Only entities in this entityManager may be saved''),
              callbackCalls = [], adapterCalls = []\<rparr>, env0, emptyManager 1,
             Map.empty(0 \<mapsto> customer 7 (Some newEntityAspect)))"
  by (simp add: saveChanges_def getEntitiesToSave_def aspectOf_def stateOf_def customer_def
      newEntityAspect_def emptyManager_def)


subsection \<open>executeQueryLocally\<close>

lemma map_filter_filter_slots:
  "List.map_filter id (filter (\<lambda>slot. case slot of None \<Rightarrow> False | Some e \<Rightarrow> P e) slots)
     = filter P (List.map_filter id slots)"
  by (induction slots) (auto split: option.splits)


lemma findOrCreateEntityGroup_map_of:
  "map_of (u_entityGroupMap (snd (findOrCreateEntityGroup em n))) m =
     (if m = n \<and> map_of (u_entityGroupMap em) n = None then Some (newEntityGroup n)
      else map_of (u_entityGroupMap em) m)"
  by (auto simp: findOrCreateEntityGroup_def map_add_def split: option.splits)


lemma findOrCreateEntityGroups_concat:
  assumes "\<And>n. G (newEntityGroup n) = []"
  shows "concat (map G (fst (findOrCreateEntityGroups em ns)))
     = concat (map (\<lambda>n. case map_of (u_entityGroupMap em) n of None \<Rightarrow> [] | Some g \<Rightarrow> G g) ns)"
proof (induction ns arbitrary: em)
  case Nil
  show ?case by simp
next
  case (Cons n ns)
  obtain g em1 where g: "findOrCreateEntityGroup em n = (g, em1)" by force
  obtain gs em2 where gs: "findOrCreateEntityGroups em1 ns = (gs, em2)" by force
  have em1: "em1 = snd (findOrCreateEntityGroup em n)" using g by simp
  have here: "G g = (case map_of (u_entityGroupMap em) n of None \<Rightarrow> [] | Some g \<Rightarrow> G g)"
    using g assms by (auto simp: findOrCreateEntityGroup_def split: option.splits)
  have rest: "\<And>m. (case map_of (u_entityGroupMap em1) m of None \<Rightarrow> [] | Some g \<Rightarrow> G g)
       = (case map_of (u_entityGroupMap em) m of None \<Rightarrow> [] | Some g \<Rightarrow> G g)"
    unfolding em1 findOrCreateEntityGroup_map_of
    using assms by (auto split: option.splits)
  show ?case
    using Cons.IH [of em1] g gs here by (simp add: rest)
qed

lemma findOrCreateEntityGroups_manager:
  "onlyEmptyGroupsAdded ns em (snd (findOrCreateEntityGroups em ns))"
proof (induction ns arbitrary: em)
  case Nil
  show ?case unfolding onlyEmptyGroupsAdded_def by (intro exI [of _ "[]"]) simp
next
  case (Cons n ns)
  obtain g em1 where g: "findOrCreateEntityGroup em n = (g, em1)" by force
  obtain gs em2 where gs: "findOrCreateEntityGroups em1 ns = (gs, em2)" by force
  from Cons.IH [of em1] gs obtain added where
    em2: "em2 = em1\<lparr>u_entityGroupMap := u_entityGroupMap em1 @ added\<rparr>" and
    added: "list_all (\<lambda>(n, g). g = newEntityGroup n \<and> map_of (u_entityGroupMap em1) n = None
                            \<and> n \<in> set ns) added"
    by (auto simp: onlyEmptyGroupsAdded_def)
  show ?case
  proof (cases "map_of (u_entityGroupMap em) n")
    case None
    then have em1: "em1 = em\<lparr>u_entityGroupMap := u_entityGroupMap em @ [(n, newEntityGroup n)]\<rparr>"
      using g by (auto simp: findOrCreateEntityGroup_def)
    have "list_all (\<lambda>(m, g). g = newEntityGroup m \<and> map_of (u_entityGroupMap em) m = None
                            \<and> m \<in> set (n # ns)) ((n, newEntityGroup n) # added)"
      using added None unfolding em1
      by (auto simp: list_all_iff map_add_def split: option.splits if_splits)
    moreover have "em2 = em\<lparr>u_entityGroupMap := u_entityGroupMap em @ ((n, newEntityGroup n) # added)\<rparr>"
      unfolding em2 em1 by simp
    ultimately show ?thesis
      using g gs unfolding onlyEmptyGroupsAdded_def by (intro exI [of _ "(n, newEntityGroup n) # added"]) simp
  next
    case (Some grp)
    then have em1: "em1 = em" using g by (simp add: findOrCreateEntityGroup_def)
    have "list_all (\<lambda>(m, g). g = newEntityGroup m \<and> map_of (u_entityGroupMap em) m = None
                            \<and> m \<in> set (n # ns)) added"
      using added unfolding em1 by (auto simp: list_all_iff)
    then show ?thesis
      using g gs em2 unfolding onlyEmptyGroupsAdded_def em1 by (intro exI [of _ added]) simp
  qed
qed



text \<open>
  C7, as the claim states it, fails on two inputs. The filter consults only
  \<^verbatim>\<open>includeDeleted\<close>, never the merge strategy: with the resolved merge strategy
  OverwriteChanges and \<^verbatim>\<open>includeDeleted\<close> false, the Deleted customer 1 of the cache is
  still left out of the result. And the take stage is guarded by the truthiness test
  \<^verbatim>\<open>if (takeCount)\<close>: the query with a take count of 0 is not cut down to no rows, it
  returns every row that the filter kept.
\<close>

theorem executeQueryLocally_merge_strategy_counterexample:
  "mergeStrategy (QueryOptions_resolve
      [q_queryOptions allCustomers, Some (queryOptions shopManager), Some defaultQueryOptions])
     = Some OverwriteChanges \<and>
   stateOf shopHeap 1 = Some Deleted \<and>
   fst (executeQueryLocally insertionSort defaultQueryOptions shopManager shopHeap allCustomers)
     = [Ent 0, Ent 2] \<and>
   takeCount noCustomers = Some 0 \<and>
   fst (executeQueryLocally insertionSort defaultQueryOptions shopManager shopHeap noCustomers)
     = [Ent 0, Ent 2]"
  by (simp add: executeQueryLocally_def executeQueryLocallyCore_def QueryOptions_resolve_def
      firstDefined_def List.map_filter_def allCustomers_def noCustomers_def shopManager_def
      shopHeap_def emptyManager_def customerType_def customer_def attachedAs_def
      newEntityAspect_def findOrCreateEntityGroup_def stateOf_def aspectOf_def
      defaultQueryOptions_def)

text \<open>
  C7, amended. For a query whose take count, if it has one, is not 0,
  \<^verbatim>\<open>executeQueryLocally\<close> reads the cached groups of the target type and its subtypes
  and applies, in this order: the filter, which keeps an entity when the resolved options
  have \<^verbatim>\<open>includeDeleted\<close> true or the entity is not Deleted, and the where predicate (if
  any) holds; the order-by comparator; the skip count; the take count; the projection. It
  returns no heap, so it changes no entity; the manager it leaves differs from the one it
  found only by empty groups, created for the types of the query that had none.
\<close>

theorem executeQueryLocallyCore_stages:
  assumes "takeCount query \<noteq> Some 0"
  shows "results (fst (executeQueryLocallyCore sortFn dflt em h query)) =
       (let opts = QueryOptions_resolve [q_queryOptions query, Some (queryOptions em), Some dflt];
            kept = filter (\<lambda>e. (includeDeleted opts = Some True \<or> stateOf h e \<noteq> Some Deleted) \<and>
                               (case wherePredicate query of None \<Rightarrow> True | Some p \<Rightarrow> p h e))
                     (cachedEntities em (selfAndSubtypes (fromEntityType query)));
            ordered = (case orderByClause query of None \<Rightarrow> kept | Some cmp \<Rightarrow> sortFn (cmp h) kept);
            page = (case takeCount query of None \<Rightarrow> (\<lambda>xs. xs) | Some n \<Rightarrow> take n)
                     (drop (case skipCount query of None \<Rightarrow> 0 | Some n \<Rightarrow> n) ordered)
        in case selectClause query of
             None \<Rightarrow> map Ent page
           | Some selectFn \<Rightarrow> map (\<lambda>e. Proj (selectFn h e)) page)
     \<and> onlyEmptyGroupsAdded (selfAndSubtypes (fromEntityType query)) em
         (snd (executeQueryLocallyCore sortFn dflt em h query))"
proof -
  obtain groups em1 where groups:
    "findOrCreateEntityGroups em (selfAndSubtypes (fromEntityType query)) = (groups, em1)" by force
  have em': "snd (executeQueryLocallyCore sortFn dflt em h query)
       = snd (findOrCreateEntityGroups em (selfAndSubtypes (fromEntityType query)))"
    using groups by (simp add: executeQueryLocallyCore_def Let_def)
  have cached: "\<And>F. concat (map (\<lambda>grp. List.map_filter id (filter (\<lambda>slot. case slot of None \<Rightarrow> False | Some e \<Rightarrow> F e) (u_entities grp))) groups)
      = filter F (cachedEntities em (selfAndSubtypes (fromEntityType query)))"
  proof -
    fix F
    let ?G = "\<lambda>grp. List.map_filter id (filter (\<lambda>slot. case slot of None \<Rightarrow> False | Some e \<Rightarrow> F e) (u_entities grp))"
    have "\<And>n. ?G (newEntityGroup n) = []" by (simp add: newEntityGroup_def)
    from findOrCreateEntityGroups_concat [of ?G em "selfAndSubtypes (fromEntityType query)", OF this] groups
    have "concat (map ?G groups) = concat (map (\<lambda>n. case map_of (u_entityGroupMap em) n of None \<Rightarrow> [] | Some g \<Rightarrow> ?G g) (selfAndSubtypes (fromEntityType query)))"
      by simp
    also have "\<dots> = filter F (cachedEntities em (selfAndSubtypes (fromEntityType query)))"
      unfolding cachedEntities_def filter_concat map_map comp_def map_filter_filter_slots
      by (rule arg_cong [where f = concat], rule map_cong) (auto split: option.splits)
    finally show "concat (map ?G groups) = filter F (cachedEntities em (selfAndSubtypes (fromEntityType query)))" .
  qed
  have res: "results (fst (executeQueryLocallyCore sortFn dflt em h query)) =
       (let opts = QueryOptions_resolve [q_queryOptions query, Some (queryOptions em), Some dflt];
            kept = filter (\<lambda>e. (includeDeleted opts = Some True \<or> stateOf h e \<noteq> Some Deleted) \<and>
                               (case wherePredicate query of None \<Rightarrow> True | Some p \<Rightarrow> p h e))
                     (cachedEntities em (selfAndSubtypes (fromEntityType query)));
            ordered = (case orderByClause query of None \<Rightarrow> kept | Some cmp \<Rightarrow> sortFn (cmp h) kept);
            page = (case takeCount query of None \<Rightarrow> (\<lambda>xs. xs) | Some n \<Rightarrow> take n)
                     (drop (case skipCount query of None \<Rightarrow> 0 | Some n \<Rightarrow> n) ordered)
        in case selectClause query of
             None \<Rightarrow> map Ent page
           | Some selectFn \<Rightarrow> map (\<lambda>e. Proj (selectFn h e)) page)"
    using groups assms
    by (cases "takeCount query"; cases "skipCount query"; cases "orderByClause query"; cases "selectClause query")
       (simp_all add: executeQueryLocallyCore_def Let_def cached)
  show ?thesis using res em' findOrCreateEntityGroups_manager by simp
qed


theorem executeQueryLocallyCore_stages_witness:
  "takeCount secondCustomerById \<noteq> Some 0 \<and>
   results (fst (executeQueryLocallyCore insertionSort defaultQueryOptions shopManager shopHeap
                   secondCustomerById)) = [Ent 0]"
proof -
  have pos: "takeCount secondCustomerById \<noteq> Some 0"
    by (simp add: secondCustomerById_def)
  have page: "(let opts = QueryOptions_resolve [q_queryOptions secondCustomerById, Some (queryOptions shopManager), Some defaultQueryOptions];
            kept = filter (\<lambda>e. (includeDeleted opts = Some True \<or> stateOf shopHeap e \<noteq> Some Deleted) \<and>
                               (case wherePredicate secondCustomerById of None \<Rightarrow> True | Some p \<Rightarrow> p shopHeap e))
                     (cachedEntities shopManager (selfAndSubtypes (fromEntityType secondCustomerById)));
            ordered = (case orderByClause secondCustomerById of None \<Rightarrow> kept | Some cmp \<Rightarrow> insertionSort (cmp shopHeap) kept);
            page = (case takeCount secondCustomerById of None \<Rightarrow> (\<lambda>xs. xs) | Some n \<Rightarrow> take n)
                     (drop (case skipCount secondCustomerById of None \<Rightarrow> 0 | Some n \<Rightarrow> n) ordered)
        in case selectClause secondCustomerById of
             None \<Rightarrow> map Ent page
           | Some selectFn \<Rightarrow> map (\<lambda>e. Proj (selectFn shopHeap e)) page) = [Ent 0]"
    by code_simp
  from executeQueryLocallyCore_stages
         [OF pos, of insertionSort defaultQueryOptions shopManager shopHeap] pos page
  show ?thesis
    by simp
qed


subsection \<open>Concurrency stamping\<close>

lemma updateConcurrencyProperty_already_updated:
  "h e = Some ent \<Longrightarrow> entityAspect ent = Some a \<Longrightarrow>
   map_of (originalValues a) (dp_name p) = Some ov \<Longrightarrow> truthy ov \<Longrightarrow>
   updateConcurrencyProperty env e p em h = Some (Inr (), env, em, h)"
  by (simp add: updateConcurrencyProperty_def)

lemma updateConcurrencyProperty_numeric:
  "h e = Some ent \<Longrightarrow> entityAspect ent = Some a \<Longrightarrow>
   map_of (originalValues a) (dp_name p) = None \<Longrightarrow> isNumeric (dataType p) \<Longrightarrow>
   getProperty ent (dp_name p) = JNum n \<Longrightarrow> n \<noteq> 0 \<Longrightarrow> \<bar>n + 1\<bar> \<le> 2 ^ 53 \<Longrightarrow>
   updateConcurrencyProperty env e p em h =
     Some (Inr (), env, entity_setProperty e (dp_name p) (JNum (n + 1)) em h)"
  by (simp add: updateConcurrencyProperty_def split: prod.splits)

lemma jsAdd1_beyond_exact_integers:
  "jsAdd1 txt (JNum (2 ^ 53)) = JNum (2 ^ 53) \<and> jsAdd1 txt (JNum (2 ^ 53 + 2)) = JNum (2 ^ 53 + 4)"
  by code_simp

lemma updateConcurrencyProperty_binary:
  "h e = Some ent \<Longrightarrow> entityAspect ent = Some a \<Longrightarrow>
   \<not> isNumeric (dataType p) \<Longrightarrow> \<not> isDate (dataType p) \<Longrightarrow> dt_name (dataType p) = ''Binary'' \<Longrightarrow>
   updateConcurrencyProperty env e p em h = Some (Inr (), env, em, h)"
  by (simp add: updateConcurrencyProperty_def split: option.splits)

lemma updateConcurrencyProperty_other_type:
  "h e = Some ent \<Longrightarrow> entityAspect ent = Some a \<Longrightarrow>
   map_of (originalValues a) (dp_name p) = None \<Longrightarrow>
   \<not> isNumeric (dataType p) \<Longrightarrow> \<not> isDate (dataType p) \<Longrightarrow>
   dt_name (dataType p) \<noteq> ''Guid'' \<Longrightarrow> dt_name (dataType p) \<noteq> ''Binary'' \<Longrightarrow>
   updateConcurrencyProperty env e p em h =
     Some (Inl (Error (''Unable to update the value of concurrency property before saving: ''
                        @ dp_name p)), env, em, h)"
  by (simp add: updateConcurrencyProperty_def)

text \<open>
  C4. The guard that is to skip a property already stamped in this save tests the
  recorded original value for truthiness. A Modified customer whose \<^verbatim>\<open>rowVersion\<close> was
  0 is stamped to 1 by the first attempt, which records the original value 0; after that
  attempt has failed, the second attempt does not skip the property and stamps it to 2.
\<close>

theorem updateConcurrencyProperties_stamps_again:
  "updateConcurrencyProperties env0 [0] (cachedManager True) (stampHeap 0 [] False)
     = Some (Inr (), env0, cachedManager True, stampHeap 1 [(''rowVersion'', JNum 0)] True) \<and>
   updateConcurrencyProperties env0 [0] (cachedManager True)
       (stampHeap 1 [(''rowVersion'', JNum 0)] False)
     = Some (Inr (), env0, cachedManager True, stampHeap 2 [(''rowVersion'', JNum 0)] True)"
  by (simp add: updateConcurrencyProperties_def markIsBeingSaved_def updAspect_def stampHeap_def
     customerType_def attachedAs_def newEntityAspect_def updateConcurrencyProperty_def Int32_def
     getProperty_def entity_setProperty_def cachedManager_def emptyManager_def Let_def)


subsection \<open>importEntities: collisions\<close>

lemma map_of_fold_update:
  "distinct (map fst vals) \<Longrightarrow>
   map_of (fold (\<lambda>(k, v) ps. AList.update k v ps) vals ps) k =
     (case map_of vals k of Some v \<Rightarrow> Some v | None \<Rightarrow> map_of ps k)"
proof (induction vals arbitrary: ps)
  case Nil
  show ?case by simp
next
  case (Cons kv vals)
  obtain k0 v0 where kv: "kv = (k0, v0)" by (cases kv)
  have notin: "map_of vals k0 = None"
    using Cons.prems kv by (simp add: map_of_eq_None_iff)
  show ?case
    using Cons.IH [of "AList.update k0 v0 ps"] Cons.prems kv notin
    by (auto simp: update_conv' split: option.splits)
qed

lemma overwriteValues_property:
  assumes "distinct (map fst vals)" "h target = Some ent"
  shows "propertyOf (overwriteValues h target vals) target k =
           (case map_of vals k of Some v \<Rightarrow> v | None \<Rightarrow> propertyOf h target k)"
  using assms
  by (simp add: overwriteValues_def propertyOf_def getProperty_def map_of_fold_update split: option.splits)

lemma propertyOf_updAspect [simp]: "propertyOf (updAspect h e f) x k = propertyOf h x k"
  by (simp add: updAspect_def propertyOf_def getProperty_def split: option.splits)

lemma stateOf_updAspect_same:
  "aspectOf h e = Some a \<Longrightarrow> stateOf (updAspect h e f) e = Some (entityState (f a))"
  by (auto simp: updAspect_def stateOf_def aspectOf_def split: option.splits)

lemma updateTargetFromRaw_property:
  assumes "distinct (map fst (raw_values raw))" "h target = Some ent"
  shows "propertyOf (updateTargetFromRaw h target raw) target k =
           (case map_of (raw_values raw) k of Some v \<Rightarrow> v | None \<Rightarrow> propertyOf h target k)"
  using assms by (simp add: updateTargetFromRaw_def Let_def overwriteValues_property split: option.splits)

lemma aspectOf_overwriteValues [simp]: "aspectOf (overwriteValues h t vals) e = aspectOf h e"
  by (simp add: overwriteValues_def aspectOf_def split: option.splits)

lemma aspectOf_updAspect: "aspectOf (updAspect h e f) x = (if x = e then map_option f (aspectOf h e) else aspectOf h x)"
  by (auto simp: updAspect_def aspectOf_def split: option.splits)

lemma aspectOf_updateTargetFromRaw_defined:
  "aspectOf h target = Some a \<Longrightarrow> \<exists>a'. aspectOf (updateTargetFromRaw h target raw) target = Some a'"
  by (simp add: updateTargetFromRaw_def Let_def aspectOf_updAspect split: option.splits)

lemma aspect_setEntityState_result:
  assumes "s \<noteq> Detached" "aspectOf h e = Some a"
  shows "stateOf (snd (aspect_setEntityState e s em h)) e = Some s \<and>
         propertyOf (snd (aspect_setEntityState e s em h)) e k = propertyOf h e k"
  using assms by (simp add: aspect_setEntityState_def Let_def stateOf_updAspect_same)

lemma merged_after_overwrite:
  assumes "s \<noteq> Detached" "aspectOf h cached = Some a" "distinct (map fst (raw_values raw))"
  shows "mergedFromRaw (snd (aspect_setEntityState cached s em (updateTargetFromRaw h cached raw))) cached raw s"
proof -
  obtain ent where ent: "h cached = Some ent"
    using assms(2) by (auto simp: aspectOf_def split: option.splits)
  obtain a' where a': "aspectOf (updateTargetFromRaw h cached raw) cached = Some a'"
    using aspectOf_updateTargetFromRaw_defined [OF assms(2)] by blast
  have vals: "\<And>k v. (k, v) \<in> set (raw_values raw) \<Longrightarrow>
        propertyOf (updateTargetFromRaw h cached raw) cached k = v"
    using assms(3) ent by (simp add: updateTargetFromRaw_property)
  show ?thesis
    unfolding mergedFromRaw_def list_all_iff
    using aspect_setEntityState_result [OF assms(1) a'] vals by auto
qed

text \<open>
  C3, as the claim states it, fails for an imported Added entity whose key is one of the
  bundle's temp keys: such an entity is never matched against the cache ("Merge if raw
  entity is in cache UNLESS this is a new entity w/ a temp key"). Customer 7 is cached and
  the bundle brings an Added customer with the temp key 7; under Disallowed the import
  does not throw, and here it returns a new entity, 1, for which the generator gave -2.
\<close>

theorem importEntities_temp_key_collision_counterexample:
  "getEntityByKey (cachedManager False) (cachedHeap Unchanged) (mkEntityKey customerType [JNum 7]) = Some 0 \<and>
   io_result (importEntities hintingGenerator shopMetadata [JNum 7] 1 (cachedManager False)
               (cachedHeap Unchanged) emptyNav (tempKeyBundle 7) (Some Disallowed))
     = Inr \<lparr>ir_entities = [1],
            tempKeyMapping = [((''Customer'', [JNum 7]), mkEntityKey customerType [JNum (-2)])]\<rparr>"
  by code_simp

lemma importRawEntity_collision_table:
  assumes "EntityState_fromName (ra_entityState (raw_entityAspect raw)) = Some s"
    and "s \<noteq> Detached"
    and "s = Added \<longrightarrow> getMappedKey tkm (getEntityKeyFromRawEntity et raw) = None"
    and "map_of (u_entityGroupMap em) gname = Some grp"
    and "group_findEntityByKey h grp (getEntityKeyFromRawEntity et raw) = Some cached"
    and "aspectOf h cached = Some a"
    and "distinct (map fst (raw_values raw))"
  shows "case ms of
           Disallowed \<Rightarrow>
             (\<exists>msg. importRawEntity md gname et (Some ms) tkm raw nxt em h = (Inl (Error msg), nxt, em, h))
         | SkipMerge \<Rightarrow>
             importRawEntity md gname et (Some ms) tkm raw nxt em h = (Inr cached, nxt, em, h)
         | OverwriteChanges \<Rightarrow>
             mergeOutcome (importRawEntity md gname et (Some ms) tkm raw nxt em h) cached raw s
         | PreserveChanges \<Rightarrow>
             if entityState a = Unchanged
             then mergeOutcome (importRawEntity md gname et (Some ms) tkm raw nxt em h) cached raw s
             else importRawEntity md gname et (Some ms) tkm raw nxt em h = (Inr cached, nxt, em, h)"
proof -
  have notMapped: "(if s = Added then getMappedKey tkm (getEntityKeyFromRawEntity et raw) else None) = None"
    using assms(3) by simp
  have st: "stateOf h cached = Some (entityState a)"
    using assms(6) by (simp add: stateOf_def)
  have merged: "mergedFromRaw (snd (aspect_setEntityState cached s em (updateTargetFromRaw h cached raw))) cached raw s"
    by (rule merged_after_overwrite [OF assms(2) assms(6) assms(7)])
  show ?thesis
  proof (cases ms)
    case Disallowed
    then show ?thesis
      using assms(1,2,4,5) notMapped by (simp add: importRawEntity_def Let_def)
  next
    case SkipMerge
    then show ?thesis
      using assms(1,2,4,5) notMapped by (simp add: importRawEntity_def Let_def)
  next
    case OverwriteChanges
    then show ?thesis
      using assms(1,2,4,5) notMapped merged
      by (auto simp: importRawEntity_def Let_def mergeOutcome_def split: prod.splits)
  next
    case PreserveChanges
    then show ?thesis
      using assms(1,2,4,5) notMapped merged st
      by (auto simp: importRawEntity_def Let_def mergeOutcome_def split: prod.splits)
  qed
qed

lemma importRawEntity_not_looked_up:
  assumes "EntityState_fromName (ra_entityState (raw_entityAspect raw)) = Some Added"
    and "getMappedKey tkm (getEntityKeyFromRawEntity et raw) = Some ntk"
  shows "importRawEntity md gname et ms1 tkm raw nxt em h =
         importRawEntity md gname et ms2 tkm raw nxt em h"
  using assms by (simp add: importRawEntity_def Let_def)

text \<open>
  C3, amended. Take an imported entity with a state other than Detached. When it is not an
  Added entity with a key in the bundle's temp key table, and its key is found in the
  group, the loop body of \<^verbatim>\<open>importEntityGroup\<close> resolves the collision by the table:
  Disallowed throws and changes nothing; SkipMerge returns the cached entity and changes
  nothing; OverwriteChanges gives the cached entity the raw values and the imported state;
  PreserveChanges does that when the cached entity is Unchanged, and otherwise returns the
  cached entity and changes nothing. When it is an Added entity with a key in the bundle's
  temp key table, the table of merge strategies is not applied to it: what the loop body
  does is the same under every merge strategy.
\<close>

theorem importRawEntity_collision:
  "(EntityState_fromName (ra_entityState (raw_entityAspect raw)) = Some s \<and> s \<noteq> Detached \<and>
    (s = Added \<longrightarrow> getMappedKey tkm (getEntityKeyFromRawEntity et raw) = None) \<and>
    map_of (u_entityGroupMap em) gname = Some grp \<and>
    group_findEntityByKey h grp (getEntityKeyFromRawEntity et raw) = Some cached \<and>
    aspectOf h cached = Some a \<and>
    distinct (map fst (raw_values raw)) \<longrightarrow>
    (case ms of
       Disallowed \<Rightarrow>
         (\<exists>msg. importRawEntity md gname et (Some ms) tkm raw nxt em h = (Inl (Error msg), nxt, em, h))
     | SkipMerge \<Rightarrow>
         importRawEntity md gname et (Some ms) tkm raw nxt em h = (Inr cached, nxt, em, h)
     | OverwriteChanges \<Rightarrow>
         mergeOutcome (importRawEntity md gname et (Some ms) tkm raw nxt em h) cached raw s
     | PreserveChanges \<Rightarrow>
         if entityState a = Unchanged
         then mergeOutcome (importRawEntity md gname et (Some ms) tkm raw nxt em h) cached raw s
         else importRawEntity md gname et (Some ms) tkm raw nxt em h = (Inr cached, nxt, em, h))) \<and>
   (EntityState_fromName (ra_entityState (raw_entityAspect raw)) = Some Added \<and>
    getMappedKey tkm (getEntityKeyFromRawEntity et raw) = Some ntk \<longrightarrow>
    importRawEntity md gname et ms1 tkm raw nxt em h = importRawEntity md gname et ms2 tkm raw nxt em h)"
  using importRawEntity_collision_table
          [where raw = raw and s = s and tkm = tkm and et = et and em = em and gname = gname
             and grp = grp and h = h and cached = cached and a = a and ms = ms and md = md
             and nxt = nxt]
        importRawEntity_not_looked_up
          [where raw = raw and tkm = tkm and et = et and ntk = ntk and md = md and gname = gname
             and ?ms1.0 = ms1 and nxt = nxt and em = em and h = h and ?ms2.0 = ms2]
  by blast

theorem importRawEntity_collision_witness:
  "group_findEntityByKey (cachedHeap Modified) \<lparr>g_entityType = ''Customer'', u_entities = [Some 0]\<rparr>
     (getEntityKeyFromRawEntity customerType (rawCustomer 7 5 ''Unchanged'')) = Some 0 \<and>
   importRawEntity shopMetadata ''Customer'' customerType (Some PreserveChanges) []
       (rawCustomer 7 5 ''Unchanged'') 1 (cachedManager True) (cachedHeap Modified)
     = (Inr 0, 1, cachedManager True, cachedHeap Modified) \<and>
   mergeOutcome
     (importRawEntity shopMetadata ''Customer'' customerType (Some OverwriteChanges) []
        (rawCustomer 7 5 ''Unchanged'') 1 (cachedManager True) (cachedHeap Modified))
     0 (rawCustomer 7 5 ''Unchanged'') Unchanged \<and>
   getMappedKey [((''Customer'', [JNum 7]), mkEntityKey customerType [JNum (-2)])]
     (getEntityKeyFromRawEntity customerType (rawCustomer 7 1 ''Added''))
     = Some (mkEntityKey customerType [JNum (-2)]) \<and>
   importRawEntity shopMetadata ''Customer'' customerType (Some Disallowed)
       [((''Customer'', [JNum 7]), mkEntityKey customerType [JNum (-2)])]
       (rawCustomer 7 1 ''Added'') 1 (cachedManager False) (cachedHeap Unchanged)
     = importRawEntity shopMetadata ''Customer'' customerType (Some OverwriteChanges)
       [((''Customer'', [JNum 7]), mkEntityKey customerType [JNum (-2)])]
       (rawCustomer 7 1 ''Added'') 1 (cachedManager False) (cachedHeap Unchanged) \<and>
   fst (importRawEntity shopMetadata ''Customer'' customerType (Some Disallowed)
       [((''Customer'', [JNum 7]), mkEntityKey customerType [JNum (-2)])]
       (rawCustomer 7 1 ''Added'') 1 (cachedManager False) (cachedHeap Unchanged)) = Inr 1"
proof -
  have st: "EntityState_fromName (ra_entityState (raw_entityAspect (rawCustomer 7 5 ''Unchanged'')))
              = Some Unchanged"
    by code_simp
  have nd: "Unchanged \<noteq> Detached" by simp
  have nm: "Unchanged = Added \<longrightarrow>
            getMappedKey [] (getEntityKeyFromRawEntity customerType (rawCustomer 7 5 ''Unchanged'')) = None"
    by simp
  have grp: "map_of (u_entityGroupMap (cachedManager True)) ''Customer''
               = Some \<lparr>g_entityType = ''Customer'', u_entities = [Some 0]\<rparr>"
    by (simp add: cachedManager_def emptyManager_def)
  have hit: "group_findEntityByKey (cachedHeap Modified) \<lparr>g_entityType = ''Customer'', u_entities = [Some 0]\<rparr>
     (getEntityKeyFromRawEntity customerType (rawCustomer 7 5 ''Unchanged'')) = Some 0"
    by code_simp
  have asp: "aspectOf (cachedHeap Modified) 0 = Some (attachedAs 1 Modified)"
    by (simp add: aspectOf_def cachedHeap_def customer_def)
  have dist: "distinct (map fst (raw_values (rawCustomer 7 5 ''Unchanged'')))"
    by (simp add: rawCustomer_def)
  have mod: "entityState (attachedAs 1 Modified) \<noteq> Unchanged"
    by (simp add: attachedAs_def)
  have added: "EntityState_fromName (ra_entityState (raw_entityAspect (rawCustomer 7 1 ''Added'')))
              = Some Added"
    by code_simp
  have mapped: "getMappedKey [((''Customer'', [JNum 7]), mkEntityKey customerType [JNum (-2)])]
     (getEntityKeyFromRawEntity customerType (rawCustomer 7 1 ''Added''))
     = Some (mkEntityKey customerType [JNum (-2)])"
    by code_simp
  have new: "fst (importRawEntity shopMetadata ''Customer'' customerType (Some Disallowed)
       [((''Customer'', [JNum 7]), mkEntityKey customerType [JNum (-2)])]
       (rawCustomer 7 1 ''Added'') 1 (cachedManager False) (cachedHeap Unchanged)) = Inr 1"
    by code_simp
  have t1: "importRawEntity shopMetadata ''Customer'' customerType (Some PreserveChanges) []
       (rawCustomer 7 5 ''Unchanged'') 1 (cachedManager True) (cachedHeap Modified)
     = (Inr 0, 1, cachedManager True, cachedHeap Modified)"
    using importRawEntity_collision
           [where raw = "rawCustomer 7 5 ''Unchanged''" and s = Unchanged and tkm = "[]"
              and et = customerType and em = "cachedManager True" and gname = "''Customer''"
              and grp = "\<lparr>g_entityType = ''Customer'', u_entities = [Some 0]\<rparr>"
              and h = "cachedHeap Modified" and cached = 0 and a = "attachedAs 1 Modified"
              and ms = PreserveChanges and md = shopMetadata and nxt = 1]
          st nd nm grp hit asp dist mod
    by simp
  have t2: "mergeOutcome
     (importRawEntity shopMetadata ''Customer'' customerType (Some OverwriteChanges) []
        (rawCustomer 7 5 ''Unchanged'') 1 (cachedManager True) (cachedHeap Modified))
     0 (rawCustomer 7 5 ''Unchanged'') Unchanged"
    using importRawEntity_collision
           [where raw = "rawCustomer 7 5 ''Unchanged''" and s = Unchanged and tkm = "[]"
              and et = customerType and em = "cachedManager True" and gname = "''Customer''"
              and grp = "\<lparr>g_entityType = ''Customer'', u_entities = [Some 0]\<rparr>"
              and h = "cachedHeap Modified" and cached = 0 and a = "attachedAs 1 Modified"
              and ms = OverwriteChanges and md = shopMetadata and nxt = 1]
          st nd nm grp hit asp dist
    by simp
  have t3: "importRawEntity shopMetadata ''Customer'' customerType (Some Disallowed)
       [((''Customer'', [JNum 7]), mkEntityKey customerType [JNum (-2)])]
       (rawCustomer 7 1 ''Added'') 1 (cachedManager False) (cachedHeap Unchanged)
     = importRawEntity shopMetadata ''Customer'' customerType (Some OverwriteChanges)
       [((''Customer'', [JNum 7]), mkEntityKey customerType [JNum (-2)])]
       (rawCustomer 7 1 ''Added'') 1 (cachedManager False) (cachedHeap Unchanged)"
    using importRawEntity_collision
           [where raw = "rawCustomer 7 1 ''Added''"
              and tkm = "[((''Customer'', [JNum 7]), mkEntityKey customerType [JNum (-2)])]"
              and et = customerType and ntk = "mkEntityKey customerType [JNum (-2)]"
              and md = shopMetadata and gname = "''Customer''" and nxt = 1
              and em = "cachedManager False" and h = "cachedHeap Unchanged"
              and ?ms1.0 = "Some Disallowed" and ?ms2.0 = "Some OverwriteChanges"]
          added mapped
    by blast
  from hit t1 t2 mapped t3 new show ?thesis by blast
qed

subsection \<open>importEntities: temp keys\<close>













subsection \<open>attachEntity: idempotence and ownership\<close>

lemma framed_refl [simp]: "framed w w"
  by (cases w) (simp add: framed_def sameSettings_def)

lemma framed_trans: "framed w1 w2 \<Longrightarrow> framed w2 w3 \<Longrightarrow> framed w1 w3"
  by (cases w1; cases w2; cases w3) (auto simp: framed_def sameSettings_def)

lemma sameSettings_simps [simp]:
  "sameSettings em em"
  "sameSettings em (publish p em)"
  "sameSettings em (u_setHasChanges b em h)"
  "sameSettings em (u_notifyStateChange e needsSave em h)"
  "sameSettings em (snd (findOrCreateEntityGroup em n))"
  "sameSettings em (em\<lparr>u_entityGroupMap := gm\<rparr>)"
  "sameSettings em (em\<lparr>u_unattachedChildrenMap := ucm\<rparr>)"
  by (auto simp: sameSettings_def publish_def u_setHasChanges_def u_notifyStateChange_def Let_def
      findOrCreateEntityGroup_def split: option.splits)

lemma sameSettings_trans: "sameSettings a b \<Longrightarrow> sameSettings b c \<Longrightarrow> sameSettings a c"
  by (simp add: sameSettings_def)

lemma obs_updAspect:
  "storeOf (updAspect h e f) x = storeOf h x"
  "hasAspect (updAspect h e f) x = hasAspect h x"
  "(\<And>a. u_inProcessEntity (f a) = u_inProcessEntity a) \<Longrightarrow> inProcessOf (updAspect h e f) x = inProcessOf h x"
  "(\<And>a. entityManager (f a) = entityManager a) \<Longrightarrow> ownerOf (updAspect h e f) x = ownerOf h x"
  by (auto simp: storeOf_def inProcessOf_def ownerOf_def hasAspect_def updAspect_def aspectOf_def
      split: option.splits)

lemma obs_props:
  "h e = Some ent \<Longrightarrow> storeOf (h(e \<mapsto> ent\<lparr>props := p\<rparr>)) x = storeOf h x"
  "h e = Some ent \<Longrightarrow> hasAspect (h(e \<mapsto> ent\<lparr>props := p\<rparr>)) x = hasAspect h x"
  "h e = Some ent \<Longrightarrow> inProcessOf (h(e \<mapsto> ent\<lparr>props := p\<rparr>)) x = inProcessOf h x"
  "h e = Some ent \<Longrightarrow> ownerOf (h(e \<mapsto> ent\<lparr>props := p\<rparr>)) x = ownerOf h x"
  by (auto simp: storeOf_def inProcessOf_def ownerOf_def hasAspect_def aspectOf_def split: option.splits)

lemma obs_setProperty_loading:
  assumes "isLoading em" "entity_setProperty e name v em h = (em', h')"
  shows "em' = em \<and> (\<forall>x. storeOf h' x = storeOf h x) \<and> (\<forall>x. inProcessOf h' x = inProcessOf h x) \<and>
         (\<forall>x. hasAspect h' x = hasAspect h x) \<and> (\<forall>x. ownerOf h' x = ownerOf h x)"
  using assms
  by (auto simp: entity_setProperty_def Let_def storeOf_def inProcessOf_def ownerOf_def hasAspect_def
      aspectOf_def split: option.splits if_splits)

lemma framed_generateTempKeyValue:
  "isLoading (fst (snd w)) \<Longrightarrow> framed w (snd (generateTempKeyValue gen e w))"
proof -
  assume ld: "isLoading (fst (snd w))"
  obtain g em h nav where w: "w = (g, em, h, nav)" by (cases w)
  have ld': "isLoading em" using ld w by simp
  show ?thesis
    unfolding w
    by (auto simp: generateTempKeyValue_def framed_def obs_updAspect
        split: option.splits prod.splits list.splits dest!: obs_setProperty_loading [OF ld'])
qed

lemma framed_checkEntityKey:
  "isLoading (fst (snd w)) \<Longrightarrow> framed w (snd (checkEntityKey gen e w))"
proof -
  assume ld: "isLoading (fst (snd w))"
  obtain g em h nav where w: "w = (g, em, h, nav)" by (cases w)
  show ?thesis
    using framed_generateTempKeyValue [OF ld, of gen e]
    by (auto simp: w checkEntityKey_def Let_def split: option.splits prod.splits sum.splits)
qed


lemma owner_checkEntityKey:
  "isLoading (fst (snd w)) \<Longrightarrow>
   ownerOf (fst (snd (snd (snd (checkEntityKey gen e w))))) x = ownerOf (fst (snd (snd w))) x"
proof -
  assume ld: "isLoading (fst (snd w))"
  obtain g em h nav where w: "w = (g, em, h, nav)" by (cases w)
  have ld': "isLoading em" using ld w by simp
  show ?thesis
    unfolding w
    by (auto simp: checkEntityKey_def generateTempKeyValue_def Let_def obs_updAspect
        split: option.splits prod.splits list.splits sum.splits dest!: obs_setProperty_loading [OF ld'])
qed

lemma group_attachEntity_Disallowed:
  assumes "group_attachEntity gname e s (Some Disallowed) em h = (r, em', h')"
  shows "sameSettings em em' \<and>
         (case r of
            Inl err \<Rightarrow> h' = h
          | Inr attached \<Rightarrow>
              attached = e \<and>
              h' = updAspect h e (\<lambda>a. a\<lparr>entityState := s, entityManager := Some (this em)\<rparr>))"
  using assms
  by (auto simp: group_attachEntity_def sameSettings_def split: option.splits)

lemma framed_attachEntityCore:
  assumes "u_attachEntityCore md e s Disallowed (g, em, h, nav) = (r, (g', em', h', nav'))"
    and "ownerOf h e = None"
  shows "framed (g, em, h, nav) (g', em', h', nav') \<and>
         (case r of Inl err \<Rightarrow> True
          | Inr attached \<Rightarrow> attached = e \<and> (hasAspect h e \<longrightarrow> ownerOf h' e = Some (this em)))"
proof (cases "h e")
  case None
  with assms show ?thesis by (auto simp: u_attachEntityCore_def)
next
  case (Some ent)
  obtain grp em0 where focg: "findOrCreateEntityGroup em (et_name (entityType ent)) = (grp, em0)"
    by (cases "findOrCreateEntityGroup em (et_name (entityType ent))") auto
  have s0: "sameSettings em em0" using sameSettings_simps(5) [of em "et_name (entityType ent)"] focg by simp
  obtain r1 em1 h1 where ga:
    "group_attachEntity (et_name (entityType ent)) e s (Some Disallowed) em0 h = (r1, em1, h1)"
    by (cases "group_attachEntity (et_name (entityType ent)) e s (Some Disallowed) em0 h") auto
  from group_attachEntity_Disallowed [OF ga]
  have s1: "sameSettings em0 em1"
    and h1: "case r1 of Inl err \<Rightarrow> h1 = h
             | Inr attached \<Rightarrow> attached = e \<and>
                 h1 = updAspect h e (\<lambda>a. a\<lparr>entityState := s, entityManager := Some (this em0)\<rparr>)"
    by simp_all
  have this0: "this em0 = this em" using s0 by (simp add: sameSettings_def)
  have heap1: "(\<forall>x. storeOf h1 x = storeOf h x) \<and> (\<forall>x. inProcessOf h1 x = inProcessOf h x) \<and>
               (\<forall>x. hasAspect h1 x = hasAspect h x) \<and>
               (\<forall>x m. ownerOf h x = Some m \<longrightarrow> ownerOf h1 x = Some m)"
  proof (cases r1)
    case (Inl err)
    with h1 show ?thesis by simp
  next
    case (Inr attached)
    with h1 have eq: "h1 = updAspect h e (\<lambda>a. a\<lparr>entityState := s, entityManager := Some (this em0)\<rparr>)"
      by simp
    have "\<And>x m. ownerOf h x = Some m \<Longrightarrow> ownerOf h1 x = Some m"
      using assms(2) unfolding eq
      by (auto simp: ownerOf_def aspectOf_updAspect split: option.splits if_splits)
    then show ?thesis unfolding eq by (simp add: obs_updAspect)
  qed
  show ?thesis
  proof (cases r1)
    case (Inl err)
    with assms(1) Some focg ga have "r = Inl err" "em' = em1" "h' = h1"
      by (simp_all add: u_attachEntityCore_def)
    with heap1 s0 s1 show ?thesis
      by (auto simp: framed_def intro: sameSettings_trans)
  next
    case (Inr attached)
    with h1 have att: "attached = e"
      and eq: "h1 = updAspect h e (\<lambda>a. a\<lparr>entityState := s, entityManager := Some (this em0)\<rparr>)"
      by simp_all
    obtain r2 em2 nav2 where link: "u_linkRelatedEntities md em1 h1 nav e = (r2, em2, nav2)"
      by (cases "u_linkRelatedEntities md em1 h1 nav e") auto
    have s2: "sameSettings em1 em2"
      using link by (auto simp: u_linkRelatedEntities_def Let_def sameSettings_def split: option.splits prod.splits)
    from assms(1) Some focg ga Inr att link
    have res: "em' = em2" "h' = h1" "(case r of Inl err \<Rightarrow> True | Inr a \<Rightarrow> a = e)"
      by (auto simp: u_attachEntityCore_def split: option.splits)
    have own: "hasAspect h e \<longrightarrow> ownerOf h1 e = Some (this em)"
      unfolding eq using this0 by (auto simp: ownerOf_def hasAspect_def aspectOf_updAspect)
    from res heap1 s0 s1 s2 own show ?thesis
      by (auto simp: framed_def split: sum.splits intro: sameSettings_trans)
  qed
qed


lemma attachEach_preserves:
  assumes refl: "\<And>w. R w w" and trans: "\<And>a b c. R a b \<Longrightarrow> R b c \<Longrightarrow> R a c"
    and att: "\<And>w e r w'. att w e = Some (r, w') \<Longrightarrow> R w w'"
  shows "attachEach att es w = Some (r, w') \<Longrightarrow> R w w'"
proof (induction es arbitrary: w)
  case Nil
  then show ?case by (simp add: refl)
next
  case (Cons e es)
  from Cons.prems obtain r1 w1 where step: "att w e = Some (r1, w1)"
    by (auto split: option.splits)
  show ?case
  proof (cases r1)
    case (Inl err)
    with Cons.prems step have "w' = w1" by simp
    with att [OF step] show ?thesis by simp
  next
    case (Inr a)
    with Cons.prems step have "attachEach att es w1 = Some (r, w')" by simp
    from trans [OF att [OF step] Cons.IH [OF this]] show ?thesis .
  qed
qed

lemma attachRelatedEntities_preserves:
  assumes refl: "\<And>w. R w w" and trans: "\<And>a b c. R a b \<Longrightarrow> R b c \<Longrightarrow> R a c"
    and att: "\<And>w e r w'. att w e = Some (r, w') \<Longrightarrow> R w w'"
  shows "attachRelatedEntities att entity nps w = Some (r, w') \<Longrightarrow> R w w'"
proof (induction nps arbitrary: w)
  case Nil
  then show ?case by (simp add: refl)
next
  case (Cons np nps)
  let ?related = "if np_isScalar np
                  then (case scalars (snd (snd (snd w))) (entity, np_name np) of None \<Rightarrow> [] | Some r \<Rightarrow> [r])
                  else collections (snd (snd (snd w))) (entity, np_name np)"
  from Cons.prems obtain r1 w1 where step: "attachEach att ?related w = Some (r1, w1)"
    by (auto simp: Let_def split: option.splits)
  have f1: "R w w1" by (rule attachEach_preserves [of R, OF refl trans att step])
  show ?case
  proof (cases r1)
    case (Some err)
    with Cons.prems step have "w' = w1" by (simp add: Let_def)
    with f1 show ?thesis by simp
  next
    case None
    with Cons.prems step have "attachRelatedEntities att entity nps w1 = Some (r, w')"
      by (simp add: Let_def)
    from trans [OF f1 Cons.IH [OF this]] show ?thesis .
  qed
qed

lemma framed_restore_loading:
  "framed (setLoading True w) w1 \<Longrightarrow> framed w (setLoading (isLoading (fst (snd w))) w1)"
  by (cases w; cases w1) (auto simp: framed_def setLoading_def sameSettings_def)

lemma framed_clear_guard:
  assumes "framed (setInProcess e v w2) w3" "inProcessOf (fst (snd (snd w2))) e = None"
  shows "framed w2 (setInProcess e None w3)"
proof -
  obtain g2 em2 h2 nav2 where w2: "w2 = (g2, em2, h2, nav2)" by (cases w2)
  obtain g3 em3 h3 nav3 where w3: "w3 = (g3, em3, h3, nav3)" by (cases w3)
  let ?hg = "updAspect h2 e (\<lambda>a. a\<lparr>u_inProcessEntity := v\<rparr>)"
  let ?hc = "updAspect h3 e (\<lambda>a. a\<lparr>u_inProcessEntity := None\<rparr>)"
  from assms(1) have f: "sameSettings em2 em3"
    "\<And>x. storeOf h3 x = storeOf ?hg x" "\<And>x. inProcessOf h3 x = inProcessOf ?hg x"
    "\<And>x. hasAspect ?hg x \<Longrightarrow> hasAspect h3 x"
    "\<And>x m. ownerOf ?hg x = Some m \<Longrightarrow> ownerOf h3 x = Some m"
    by (auto simp: framed_def w2 w3 setInProcess_def)
  have inp: "\<And>x. inProcessOf ?hc x = inProcessOf h2 x"
  proof -
    fix x
    show "inProcessOf ?hc x = inProcessOf h2 x"
    proof (cases "x = e")
      case True
      then show ?thesis using assms(2)
        by (auto simp: inProcessOf_def aspectOf_updAspect w2 split: option.splits)
    next
      case False
      then have "inProcessOf ?hc x = inProcessOf h3 x"
        by (simp add: inProcessOf_def aspectOf_updAspect)
      also have "\<dots> = inProcessOf ?hg x" by (rule f(3))
      also have "\<dots> = inProcessOf h2 x"
        using False by (simp add: inProcessOf_def aspectOf_updAspect)
      finally show ?thesis .
    qed
  qed
  show ?thesis
    unfolding w2 w3 framed_def setInProcess_def
    using f inp by (simp add: obs_updAspect)
qed

lemma framed_finish:
  "framed (g, em, h, nav)
     (g, publish p (if c then u_notifyStateChange a b em h' else em),
      (if v then snd (aspect_validateEntity val a h) else h), nav)"
proof -
  have "\<And>x. storeOf (snd (aspect_validateEntity val a h)) x = storeOf h x"
       "\<And>x. inProcessOf (snd (aspect_validateEntity val a h)) x = inProcessOf h x"
       "\<And>x. hasAspect (snd (aspect_validateEntity val a h)) x = hasAspect h x"
       "\<And>x. ownerOf (snd (aspect_validateEntity val a h)) x = ownerOf h x"
    by (auto simp: aspect_validateEntity_def obs_updAspect split: option.splits)
  moreover have "sameSettings em (publish p (if c then u_notifyStateChange a b em h' else em))"
    by (auto simp: sameSettings_def publish_def u_notifyStateChange_def u_setHasChanges_def Let_def
        split: option.splits)
  ultimately show ?thesis by (simp add: framed_def)
qed

lemma attachUnowned_framed:
  assumes att: "\<And>w e r w'. att w e = Some (r, w') \<Longrightarrow> framed w w'"
    and run: "attachUnowned att gen md val e s Disallowed (g, em, h, nav) = Some (r, w')"
    and own: "ownerOf h e = None"
    and inp: "inProcessOf h e = None"
  shows "framed (g, em, h, nav) w' \<and>
         (case r of
            Inl err \<Rightarrow> True
          | Inr a \<Rightarrow> a = e \<and> (hasAspect h e \<longrightarrow> ownerOf (fst (snd (snd w'))) e = Some (this em)))"
proof -
  let ?w = "(g, em, h, nav)"
  let ?wl = "setLoading True ?w"
  have ld0: "isLoading (fst (snd ?wl))" by (simp add: setLoading_def)
  have was: "isLoading (fst (snd ?w)) = isLoading em" by simp
  obtain r1 w1 where ck: "(if s = Added then checkEntityKey gen e ?wl else (None, ?wl)) = (r1, w1)"
    by (cases "if s = Added then checkEntityKey gen e ?wl else (None, ?wl)") auto
  have f01: "framed ?wl w1"
    using ck framed_checkEntityKey [OF ld0, of gen e] by (auto split: if_splits)
  have own1: "ownerOf (fst (snd (snd w1))) e = None"
    using ck owner_checkEntityKey [OF ld0, of gen e e] own by (auto simp: setLoading_def split: if_splits)
  have obs1: "inProcessOf (fst (snd (snd w1))) e = None" "hasAspect h e \<longrightarrow> hasAspect (fst (snd (snd w1))) e"
             "this (fst (snd w1)) = this em"
    using f01 inp by (cases w1; auto simp: framed_def setLoading_def sameSettings_def)+
  show ?thesis
  proof (cases r1)
    case (Some err)
    with run ck have "r = Inl err" "w' = setLoading (isLoading em) w1"
      by (simp_all add: attachUnowned_def Let_def)
    with framed_restore_loading [OF f01] show ?thesis by simp
  next
    case None
    obtain g1 em1 h1 nav1 where w1: "w1 = (g1, em1, h1, nav1)" by (cases w1)
    obtain r2 w2 where core: "u_attachEntityCore md e s Disallowed w1 = (r2, w2)"
      by (cases "u_attachEntityCore md e s Disallowed w1") auto
    obtain g2 em2 h2 nav2 where w2: "w2 = (g2, em2, h2, nav2)" by (cases w2)
    from framed_attachEntityCore [OF core [unfolded w1 w2]] own1 w1
    have f12: "framed w1 w2"
      and ok2: "case r2 of Inl err \<Rightarrow> True
                | Inr a \<Rightarrow> a = e \<and> (hasAspect h1 e \<longrightarrow> ownerOf h2 e = Some (this em1))"
      by (simp_all add: w1 w2)
    have f02: "framed ?wl w2" by (rule framed_trans [OF f01 f12])
    show ?thesis
    proof (cases r2)
      case (Inl err)
      with run ck None core have "r = Inl err" "w' = setLoading (isLoading em) w2"
        by (simp_all add: attachUnowned_def Let_def)
      with framed_restore_loading [OF f02] show ?thesis by simp
    next
      case (Inr a)
      with ok2 have a: "a = e" and own2: "hasAspect h1 e \<longrightarrow> ownerOf h2 e = Some (this em1)"
        by simp_all
      let ?nps = "case fst (snd (snd w2)) e of None \<Rightarrow> [] | Some ent \<Rightarrow> navigationProperties (entityType ent)"
      from run ck None core Inr obtain r3 w3 where
        rel: "attachRelatedEntities att e ?nps (setInProcess e (Some a) w2) = Some (r3, w3)"
        by (auto simp: attachUnowned_def Let_def split: option.splits)
      have f23': "framed (setInProcess e (Some a) w2) w3"
        by (rule attachRelatedEntities_preserves [of framed, OF framed_refl framed_trans att rel])
      have inp2: "inProcessOf (fst (snd (snd w2))) e = None"
        using f12 obs1(1) by (auto simp: framed_def w1 w2)
      have f24: "framed w2 (setInProcess e None w3)"
        by (rule framed_clear_guard [OF f23' inp2])
      have f04: "framed ?wl (setInProcess e None w3)" by (rule framed_trans [OF f02 f24])
      let ?wr = "setLoading (isLoading em) (setInProcess e None w3)"
      have f4: "framed ?w ?wr" using framed_restore_loading [OF f04] by simp
      obtain g4 em4 h4 nav4 where w4: "?wr = (g4, em4, h4, nav4)" by (cases ?wr)
      have own4: "hasAspect h e \<longrightarrow> ownerOf h4 e = Some (this em)"
      proof
        assume "hasAspect h e"
        then have "ownerOf h2 e = Some (this em1)" using own2 obs1(2) w1 by simp
        then have "ownerOf (fst (snd (snd (setInProcess e None w3)))) e = Some (this em1)"
          using f24 by (cases "setInProcess e None w3") (auto simp: framed_def w2)
        moreover have "fst (snd (snd ?wr)) = fst (snd (snd (setInProcess e None w3)))"
          by (cases "setInProcess e None w3") (simp add: setLoading_def)
        ultimately show "ownerOf h4 e = Some (this em)" using w4 obs1(3) w1 by simp
      qed
      show ?thesis
      proof (cases r3)
        case (Some err)
        with run ck None core Inr rel have "r = Inl err" "w' = ?wr"
          by (simp_all add: attachUnowned_def Let_def)
        with f4 show ?thesis by simp
      next
        case None': None
        let ?hv = "if validateOnAttach em4 then snd (aspect_validateEntity val a h4) else h4"
        let ?emv = "if s \<noteq> Unchanged then u_notifyStateChange a True em4 ?hv else em4"
        from run ck None core Inr rel None' w4
        have res: "r = Inr a" "w' = (g4, publish (EntityChanged Attach (Some a)) ?emv, ?hv, nav4)"
          by (simp_all add: attachUnowned_def Let_def)
        have f45: "framed (g4, em4, h4, nav4) w'"
          unfolding res by (rule framed_finish)
        have fin: "framed ?w w'" using framed_trans [OF f4 [unfolded w4] f45] .
        have "hasAspect h e \<longrightarrow> ownerOf ?hv e = Some (this em)"
          using own4 f45 unfolding res by (auto simp: framed_def)
        with fin res a show ?thesis by simp
      qed
    qed
  qed
qed


lemma framed_new_aspect:
  "h e = Some ent \<Longrightarrow> entityAspect ent = None \<Longrightarrow>
   framed (g, em, h, nav) (g, em, h(e \<mapsto> ent\<lparr>entityAspect := Some newEntityAspect\<rparr>), nav)"
  by (auto simp: framed_def storeOf_def inProcessOf_def hasAspect_def ownerOf_def aspectOf_def
      newEntityAspect_def split: option.splits)

lemma attachEntity_owned:
  assumes "storeOf h e = Some (metadataStore em)" "inProcessOf h e = None" "ownerOf h e = Some m"
  shows "attachEntity (Suc k) gen md val es ma (g, em, h, nav) e =
           (if m = this em then Some (Inr e, (g, em, h, nav))
            else Some (Inl (Error ''This entity already belongs to another EntityManager''),
                       (g, em, h, nav)))"
  using assms
  by (auto simp: storeOf_def inProcessOf_def ownerOf_def aspectOf_def Let_def split: option.splits)

lemma attachEntity_in_process:
  assumes "storeOf h e = Some (metadataStore em)" "inProcessOf h e = Some p"
  shows "attachEntity (Suc k) gen md val es ma (g, em, h, nav) e = Some (Inr p, (g, em, h, nav))"
  using assms
  by (auto simp: storeOf_def inProcessOf_def aspectOf_def Let_def split: option.splits)

lemma attachEntity_unowned:
  assumes "h e = Some ent" "storeOf h e = Some (metadataStore em)" "inProcessOf h e = None"
    "ownerOf h e = None"
  shows "attachEntity (Suc k) gen md val es ma (g, em, h, nav) e =
           attachUnowned
             (attachEntity k gen md val (Some (case es of None \<Rightarrow> Unchanged | Some s \<Rightarrow> s))
                (Some (case ma of None \<Rightarrow> Disallowed | Some ms \<Rightarrow> ms)))
             gen md val e (case es of None \<Rightarrow> Unchanged | Some s \<Rightarrow> s)
             (case ma of None \<Rightarrow> Disallowed | Some ms \<Rightarrow> ms)
             (g, em,
              (case entityAspect ent of
                 None \<Rightarrow> h(e \<mapsto> ent\<lparr>entityAspect := Some newEntityAspect\<rparr>)
               | Some a \<Rightarrow> h), nav)"
  using assms
  by (auto simp: storeOf_def inProcessOf_def ownerOf_def aspectOf_def Let_def split: option.splits)

lemma attachEntity_rejects:
  assumes "attachEntity (Suc k) gen md val es ma (g, em, h, nav) e = Some (r, w')"
    "h e = None \<or> storeOf h e \<noteq> Some (metadataStore em)"
  shows "w' = (g, em, h, nav) \<and> (\<exists>err. r = Inl err)"
proof (cases "h e")
  case None
  with assms(1) show ?thesis by (auto simp: Let_def)
next
  case (Some ent)
  with assms(2) have "et_metadataStore (entityType ent) \<noteq> metadataStore em"
    by (simp add: storeOf_def)
  with assms(1) Some show ?thesis by (auto simp: Let_def)
qed

lemma attachEntity_framed:
  "attachEntity n gen md val es ma w e = Some (r, w') \<Longrightarrow>
   (case ma of None \<Rightarrow> Disallowed | Some ms \<Rightarrow> ms) = Disallowed \<Longrightarrow>
   framed w w' \<and>
   (case r of
      Inl err \<Rightarrow> True
    | Inr a \<Rightarrow>
        (inProcessOf (fst (snd (snd w))) e = Some a \<and> w' = w \<and>
         storeOf (fst (snd (snd w))) e = Some (metadataStore (fst (snd w)))) \<or>
        (inProcessOf (fst (snd (snd w))) e = None \<and> a = e \<and>
         storeOf (fst (snd (snd w))) e = Some (metadataStore (fst (snd w))) \<and>
         ownerOf (fst (snd (snd w'))) e = Some (this (fst (snd w)))))"
proof (induction n arbitrary: es ma w e r w')
  case 0
  then show ?case by simp
next
  case (Suc n)
  obtain g em h nav where w: "w = (g, em, h, nav)" by (cases w)
  note run = Suc.prems(1) [unfolded w]
  show ?case
  proof (cases "h e = None \<or> storeOf h e \<noteq> Some (metadataStore em)")
    case True
    from attachEntity_rejects [OF run True] show ?thesis by (auto simp: w)
  next
    case False
    then obtain ent where ent: "h e = Some ent" and st: "storeOf h e = Some (metadataStore em)"
      by auto
    show ?thesis
    proof (cases "inProcessOf h e")
      case (Some p)
      from run attachEntity_in_process [OF st Some, of n gen md val es ma g nav]
      have "r = Inr p" "w' = (g, em, h, nav)" by (simp_all del: attachEntity.simps)
      then show ?thesis by (simp add: w st Some)
    next
      case None
      show ?thesis
      proof (cases "ownerOf h e")
        case (Some m)
        from run attachEntity_owned [OF st None Some, of n gen md val es ma g nav]
        have "(r = Inr e \<and> m = this em \<or> (\<exists>err. r = Inl err)) \<and> w' = (g, em, h, nav)"
          by (auto simp del: attachEntity.simps split: if_splits)
        then show ?thesis by (auto simp: w st None Some)
      next
        case own: None
        let ?h1 = "case entityAspect ent of
                     None \<Rightarrow> h(e \<mapsto> ent\<lparr>entityAspect := Some newEntityAspect\<rparr>)
                   | Some a \<Rightarrow> h"
        let ?att = "attachEntity n gen md val (Some (case es of None \<Rightarrow> Unchanged | Some s \<Rightarrow> s))
                      (Some Disallowed)"
        from run attachEntity_unowned [OF ent st None own, of n gen md val es ma g nav] Suc.prems(2)
        have un: "attachUnowned ?att gen md val e (case es of None \<Rightarrow> Unchanged | Some s \<Rightarrow> s)
                    Disallowed (g, em, ?h1, nav) = Some (r, w')"
          by (simp del: attachEntity.simps)
        have f1: "framed (g, em, h, nav) (g, em, ?h1, nav)"
          using framed_new_aspect [of h e ent g em nav] ent by (cases "entityAspect ent") simp_all
        have own1: "ownerOf ?h1 e = None" and inp1: "inProcessOf ?h1 e = None"
          and has1: "hasAspect ?h1 e"
          using own None ent
          by (auto simp: ownerOf_def inProcessOf_def hasAspect_def aspectOf_def newEntityAspect_def
              split: option.splits)
        have att: "\<And>w e r w'. ?att w e = Some (r, w') \<Longrightarrow> framed w w'"
          using Suc.IH by fastforce
        from attachUnowned_framed [OF att un own1 inp1] has1
        have f2: "framed (g, em, ?h1, nav) w'"
          and ok: "case r of Inl err \<Rightarrow> True
                   | Inr a \<Rightarrow> a = e \<and> ownerOf (fst (snd (snd w'))) e = Some (this em)"
          by (auto split: sum.splits)
        from framed_trans [OF f1 f2] ok show ?thesis
          by (auto simp: w st None split: sum.splits)
      qed
    qed
  qed
qed


text \<open>
  C2, as the claim states it, fails for an entity that is in the middle of an attach:
  customer 7 is owned by manager 1, and \<^verbatim>\<open>attachEntity\<close> on manager 2 returns it and
  throws nothing, because \<^verbatim>\<open>_inProcessEntity\<close> is tested before the owner.
\<close>

theorem attachEntity_in_process_counterexample:
  "ownerOf midAttachHeap 0 = Some 1 \<and> this (emptyManager 2) = 2 \<and>
   attachEntity 1 hintingGenerator shopMetadata noValidation (Some Added) None
     ([], emptyManager 2, midAttachHeap, emptyNav) 0
   = Some (Inr 0, ([], emptyManager 2, midAttachHeap, emptyNav))"
proof -
  have "storeOf midAttachHeap 0 = Some (metadataStore (emptyManager 2))"
    "inProcessOf midAttachHeap 0 = Some 0" "ownerOf midAttachHeap 0 = Some 1"
    by (simp_all add: storeOf_def inProcessOf_def ownerOf_def aspectOf_def midAttachHeap_def
        customer_def customerType_def attachedAs_def newEntityAspect_def emptyManager_def)
  with attachEntity_in_process [of midAttachHeap 0 "emptyManager 2" 0 0 hintingGenerator shopMetadata
         noValidation "Some Added" None "[]" emptyNav]
  show ?thesis by (simp del: attachEntity.simps add: emptyManager_def)
qed

text \<open>
  C2, amended. Under the default merge strategy, when attachEntity(e, s) returns an entity,
  a second attachEntity(e, s) on the same manager returns the same reference and leaves the
  manager, the entities, the key generator and the navigation store as they are.
  attachEntity on an entity whose aspect names another manager, and that is not in the
  middle of an attach, fails with an error and changes nothing. On an entity of the
  manager's metadata store that is in the middle of an attach, attachEntity returns the
  entity in process and changes nothing, whoever owns the entity.
\<close>

theorem attachEntity_idempotent_per_manager:
  "(attachEntity (Suc n) gen md val s None w e = Some (Inr r, w1) \<longrightarrow>
      attachEntity (Suc k) gen md val s None w1 e = Some (Inr r, w1)) \<and>
   (ownerOf h e = Some m \<and> m \<noteq> this em \<and> inProcessOf h e = None \<longrightarrow>
      (\<exists>err. attachEntity (Suc k) gen md val s ms (g, em, h, nav) e =
               Some (Inl err, (g, em, h, nav)))) \<and>
   (storeOf h e = Some (metadataStore em) \<and> inProcessOf h e = Some p \<longrightarrow>
      attachEntity (Suc k) gen md val s ms (g, em, h, nav) e = Some (Inr p, (g, em, h, nav)))"
proof (intro conjI impI)
  assume run: "attachEntity (Suc n) gen md val s None w e = Some (Inr r, w1)"
  obtain g0 em0 h0 nav0 where w: "w = (g0, em0, h0, nav0)" by (cases w)
  obtain g1 em1 h1 nav1 where w1: "w1 = (g1, em1, h1, nav1)" by (cases w1)
  from attachEntity_framed [OF run]
  have fr: "framed w w1"
    and res: "(inProcessOf h0 e = Some r \<and> w1 = w \<and> storeOf h0 e = Some (metadataStore em0)) \<or>
              (inProcessOf h0 e = None \<and> r = e \<and> storeOf h0 e = Some (metadataStore em0) \<and>
               ownerOf h1 e = Some (this em0))"
    by (simp_all add: w w1)
  from res show "attachEntity (Suc k) gen md val s None w1 e = Some (Inr r, w1)"
  proof
    assume a: "inProcessOf h0 e = Some r \<and> w1 = w \<and> storeOf h0 e = Some (metadataStore em0)"
    then have "attachEntity (Suc k) gen md val s None (g0, em0, h0, nav0) e =
               Some (Inr r, (g0, em0, h0, nav0))"
      by (intro attachEntity_in_process) simp_all
    with a show ?thesis by (simp del: attachEntity.simps add: w)
  next
    assume a: "inProcessOf h0 e = None \<and> r = e \<and> storeOf h0 e = Some (metadataStore em0) \<and>
               ownerOf h1 e = Some (this em0)"
    from fr have same: "this em1 = this em0" "metadataStore em1 = metadataStore em0"
      "storeOf h1 e = storeOf h0 e" "inProcessOf h1 e = inProcessOf h0 e"
      by (simp_all add: framed_def sameSettings_def w w1)
    have "attachEntity (Suc k) gen md val s None (g1, em1, h1, nav1) e =
            (if this em0 = this em1 then Some (Inr e, (g1, em1, h1, nav1))
             else Some (Inl (Error ''This entity already belongs to another EntityManager''),
                        (g1, em1, h1, nav1)))"
      using a same by (intro attachEntity_owned) simp_all
    with a same show ?thesis by (simp del: attachEntity.simps add: w1)
  qed
next
  assume a: "ownerOf h e = Some m \<and> m \<noteq> this em \<and> inProcessOf h e = None"
  then obtain ent where ent: "h e = Some ent"
    by (auto simp: ownerOf_def aspectOf_def split: option.splits)
  show "\<exists>err. attachEntity (Suc k) gen md val s ms (g, em, h, nav) e =
               Some (Inl err, (g, em, h, nav))"
  proof (cases "storeOf h e = Some (metadataStore em)")
    case True
    from a have "attachEntity (Suc k) gen md val s ms (g, em, h, nav) e =
            (if m = this em then Some (Inr e, (g, em, h, nav))
             else Some (Inl (Error ''This entity already belongs to another EntityManager''),
                        (g, em, h, nav)))"
      by (intro attachEntity_owned [OF True]) simp_all
    with a show ?thesis by (simp del: attachEntity.simps)
  next
    case False
    with ent show ?thesis by (auto simp: storeOf_def Let_def)
  qed
next
  assume "storeOf h e = Some (metadataStore em) \<and> inProcessOf h e = Some p"
  then show "attachEntity (Suc k) gen md val s ms (g, em, h, nav) e = Some (Inr p, (g, em, h, nav))"
    by (intro attachEntity_in_process) simp_all
qed

theorem attachEntity_idempotent_per_manager_witness:
  "(\<exists>w1. attachEntity 1 hintingGenerator shopMetadata noValidation (Some Added) None freshWorld 0
            = Some (Inr 0, w1) \<and>
         attachEntity 1 hintingGenerator shopMetadata noValidation (Some Added) None w1 0
            = Some (Inr 0, w1) \<and>
         (\<exists>err. attachEntity 1 hintingGenerator shopMetadata noValidation (Some Added) None
                   (seenBy 2 w1) 0 = Some (Inl err, seenBy 2 w1))) \<and>
   attachEntity 1 hintingGenerator shopMetadata noValidation (Some Added) None
     ([], emptyManager 1, midAttachHeap, emptyNav) 0
   = Some (Inr 0, ([], emptyManager 1, midAttachHeap, emptyNav))"
proof -
  have "map_option (\<lambda>(r, w). (r, ownerOf (fst (snd (snd w))) 0, inProcessOf (fst (snd (snd w))) 0))
          (attachEntity 1 hintingGenerator shopMetadata noValidation (Some Added) None freshWorld 0)
        = Some (Inr 0, Some 1, None)"
    by code_simp
  then obtain g1 em1 h1 nav1 where
    first: "attachEntity (Suc 0) hintingGenerator shopMetadata noValidation (Some Added) None freshWorld 0
              = Some (Inr 0, (g1, em1, h1, nav1))"
    and own: "ownerOf h1 0 = Some 1" and inp: "inProcessOf h1 0 = None"
    by (auto simp del: attachEntity.simps)
  have other: "(1::nat) \<noteq> this ((emptyManager 2)\<lparr>metadataStore := metadataStore em1\<rparr>)"
    by (simp add: emptyManager_def)
  have mid: "storeOf midAttachHeap 0 = Some (metadataStore (emptyManager 1))"
    "inProcessOf midAttachHeap 0 = Some 0"
    by (simp_all add: storeOf_def inProcessOf_def aspectOf_def midAttachHeap_def
        customer_def customerType_def attachedAs_def newEntityAspect_def emptyManager_def)
  from attachEntity_idempotent_per_manager
         [where n = 0 and k = 0 and gen = hintingGenerator and md = shopMetadata
            and val = noValidation and s = "Some Added" and w = freshWorld and e = 0 and r = 0
            and ?w1.0 = "(g1, em1, h1, nav1)" and h = h1 and m = 1 and ms = None and g = g1
            and nav = nav1
            and em = "(emptyManager 2)\<lparr>metadataStore := metadataStore em1\<rparr>"]
       first own inp other
  have part1: "\<exists>w1. attachEntity 1 hintingGenerator shopMetadata noValidation (Some Added) None freshWorld 0
            = Some (Inr 0, w1) \<and>
         attachEntity 1 hintingGenerator shopMetadata noValidation (Some Added) None w1 0
            = Some (Inr 0, w1) \<and>
         (\<exists>err. attachEntity 1 hintingGenerator shopMetadata noValidation (Some Added) None
                   (seenBy 2 w1) 0 = Some (Inl err, seenBy 2 w1))"
    by (simp del: attachEntity.simps add: seenBy_def)
  from attachEntity_idempotent_per_manager
         [where k = 0 and gen = hintingGenerator and md = shopMetadata
            and val = noValidation and s = "Some Added" and e = 0
            and h = midAttachHeap and ms = None and g = "[]" and p = 0
            and nav = emptyNav and em = "emptyManager 1"]
       mid
  have part2: "attachEntity 1 hintingGenerator shopMetadata noValidation (Some Added) None
     ([], emptyManager 1, midAttachHeap, emptyNav) 0
   = Some (Inr 0, ([], emptyManager 1, midAttachHeap, emptyNav))"
    by (simp del: attachEntity.simps)
  from part1 part2 show ?thesis by (simp del: attachEntity.simps)
qed

subsection \<open>hasChanges and the cached flag\<close>

text \<open>
  Attaching customer 0 as Added sets the flag, and detaching it again recomputes it:
  \<^verbatim>\<open>hasChanges()\<close> is false, as is the recomputed answer.
\<close>

lemma hasChanges_after_attach_and_detach:
  "map_option (\<lambda>(r, g, em, h, nav).
                 case detachEntity em h 0 of
                   (d, em', h') \<Rightarrow> (r, d, hasChanges em' h' None, u_hasChangesCore em' h' None))
     (attachEntity 1 hintingGenerator shopMetadata noValidation (Some Added) None freshWorld 0)
   = Some (Inr 0, Inr True, False, False)"
  by code_simp

text \<open>
  C1. \<^verbatim>\<open>attachEntity\<close> tells the manager that the attached entity needs a save whenever
  the state it was given is not Unchanged. Attaching customer 0 with the state Detached
  therefore sets the cached flag: \<^verbatim>\<open>hasChanges()\<close> returns true, while the only entity
  of the cache is Detached and \<^verbatim>\<open>_hasChangesCore()\<close> recomputes false.
\<close>

theorem hasChanges_true_after_attach_as_detached:
  "map_option (\<lambda>(r, w). (r, observedHasChanges w, recomputedHasChanges w, stateOf (fst (snd (snd w))) 0))
     (attachEntity 1 hintingGenerator shopMetadata noValidation (Some Detached) None freshWorld 0)
   = Some (Inr 0, True, False, Some Detached)"
  by code_simp

end
